theory Spec2Isabelle
  imports Complex_Main
begin

section \<open>Common vocabulary\<close>

text \<open>
  Every way in which a call can fail to return normally is a value of one type:
  the C++ exceptions that occur in the sources (\<open>std::bad_alloc\<close> from
  \<open>std::make_unique\<close>, an exception escaping an operation of the body type,
  \<open>pdg::computation_error\<close>), a failed \<open>assert\<close>, undefined behaviour, and a
  failed \<open>static_assert\<close> (the instantiation does not compile).
\<close>

datatype error =
    bad_alloc
  | Body_exception
  | computation_error
  | assertion_failed
  | undefined_behaviour
  | ill_formed

section \<open>HandleImpl.v3.h: the handle with small-buffer optimisation\<close>

subsection \<open>Memory\<close>

text \<open>
  \<open>storage_\<close> of a handle holds either the body itself (constructed in place) or
  a \<open>std::unique_ptr<Body>\<close>, whose pointer is null (\<open>None\<close>) or the address of
  a heap cell.
\<close>

datatype 'b storage = InPlace 'b | BodyPtr "nat option"

text \<open>
  The memory of the program: the live \<open>Handle\<close> objects by address, the heap
  cells handed out by \<open>operator new\<close> (a cell is \<open>None\<close> once deleted; a new
  cell is always appended, so its address is fresh), the number of cells the
  allocator can still hand out, and counters of the calls made to
  \<open>operator new\<close> and \<open>operator delete\<close>.
\<close>

record 'b memory =
  handles :: "nat \<Rightarrow> 'b storage option"
  heap :: "'b option list"
  free_store :: nat
  allocs :: nat
  frees :: nat

text \<open>
  One instantiation \<open>lib::Handle<Body, Size>\<close> on one platform: the template
  argument \<open>Size\<close>, the sizes and alignments that \<open>sizeof\<close> and \<open>alignof\<close>
  report, whether \<open>NDEBUG\<close> is defined, and the operations of the body type.
  The body's move constructor returns the new object and what is left in the
  source; its move assignment returns the new target and what is left in the
  source, and has a separate result when target and source are one object.
  The default and the copy constructor may throw; the move operations and the
  destructor are \<open>noexcept\<close>. The operations of the body are functions of
  body values alone: a body type that allocates, or has other effects of its
  own, is outside this model.
\<close>

record 'b Handle_inst =
  Size :: nat
  sizeof_voidp :: nat
  sizeof_Body :: nat
  alignof_Body :: nat
  sizeof_BodyPtr :: nat
  alignof_BodyPtr :: nat
  alignof_aligned_storage :: "nat \<Rightarrow> nat"
  NDEBUG :: bool
  Body_ctor :: "error + 'b"
  Body_copy_ctor :: "'b \<Rightarrow> error + 'b"
  Body_move_ctor :: "'b \<Rightarrow> 'b \<times> 'b"
  Body_move_assign :: "'b \<Rightarrow> 'b \<Rightarrow> 'b \<times> 'b"
  Body_self_move_assign :: "'b \<Rightarrow> 'b"

text \<open>
  A function that changes the memory returns its result, or the error that
  ended it, with the memory it leaves.
\<close>

type_synonym ('b, 'a) effect = "'b memory \<Rightarrow> (error + 'a) \<times> 'b memory"

text \<open>A pointer to a body, as returned by \<open>operator->\<close>.\<close>

datatype pointer = nullptr | in_storage nat | on_heap nat

subsection \<open>The storage strategy\<close>

text \<open>
  \<open>fits<T, Size>\<close>: \<open>sizeof(T) <= Size && alignof(T) <=
  alignof(std::aligned_storage_t<Size>)\<close>.
\<close>

definition fits :: "nat \<Rightarrow> nat \<Rightarrow> nat \<Rightarrow> (nat \<Rightarrow> nat) \<Rightarrow> bool" where
  "fits sizeof_T alignof_T N alignof_storage \<longleftrightarrow>
     sizeof_T \<le> N \<and> alignof_T \<le> alignof_storage N"

definition fits_Body :: "'b Handle_inst \<Rightarrow> bool" where
  "fits_Body I = fits (sizeof_Body I) (alignof_Body I) (Size I) (alignof_aligned_storage I)"

definition fits_BodyPtr :: "'b Handle_inst \<Rightarrow> bool" where
  "fits_BodyPtr I =
     fits (sizeof_BodyPtr I) (alignof_BodyPtr I) (Size I) (alignof_aligned_storage I)"

text \<open>The \<open>static_assert\<close> of the class: \<open>Size >= sizeof(void*)\<close>.\<close>

definition Handle_static_assert :: "'b Handle_inst \<Rightarrow> bool" where
  "Handle_static_assert I \<longleftrightarrow> sizeof_voidp I \<le> Size I"

subsection \<open>Allocation and \<open>std::unique_ptr\<close>\<close>

text \<open>
  \<open>std::make_unique<Body>(args)\<close>: \<open>operator new\<close> throws \<open>std::bad_alloc\<close>
  when the free store is exhausted; when the constructor throws, the new
  expression gives the cell back and the exception propagates.
\<close>

definition make_unique :: "error + 'b \<Rightarrow> ('b, nat) effect" where
  "make_unique ctor s =
     (if free_store s = 0 then (Inl bad_alloc, s)
      else (case ctor of
              Inl e \<Rightarrow> (Inl e, s\<lparr>allocs := Suc (allocs s), frees := Suc (frees s)\<rparr>)
            | Inr b \<Rightarrow>
                (Inr (length (heap s)),
                 s\<lparr>heap := heap s @ [Some b],
                   free_store := free_store s - 1,
                   allocs := Suc (allocs s)\<rparr>)))"

text \<open>\<open>delete p\<close> for a non-null \<open>p\<close>; deleting a cell that is not live is undefined.\<close>

definition delete :: "nat \<Rightarrow> ('b, unit) effect" where
  "delete a s =
     (if a < length (heap s) \<and> heap s ! a \<noteq> None
      then (Inr (),
            s\<lparr>heap := (heap s)[a := None],
              free_store := Suc (free_store s),
              frees := Suc (frees s)\<rparr>)
      else (Inl undefined_behaviour, s))"

text \<open>\<open>::new (&storage_) T(v)\<close>: the storage of the handle at \<open>this\<close> now holds \<open>v\<close>.\<close>

definition placement_new :: "nat \<Rightarrow> 'b storage \<Rightarrow> 'b memory \<Rightarrow> 'b memory" where
  "placement_new this v s = s\<lparr>handles := (handles s)(this \<mapsto> v)\<rparr>"

text \<open>
  \<open>*std::launder(reinterpret_cast<BodyPtr*>(&h.storage_))\<close> for a non-const
  \<open>h\<close>, read: the pointer held by the \<open>unique_ptr\<close> in the storage of \<open>h\<close>.
  Reading storage that holds no \<open>unique_ptr\<close> is undefined.
\<close>

definition unique_ptr_get :: "nat \<Rightarrow> 'b memory \<Rightarrow> error + nat option" where
  "unique_ptr_get h s =
     (case handles s h of
        Some (BodyPtr p) \<Rightarrow> Inr p
      | _ \<Rightarrow> Inl undefined_behaviour)"

text \<open>
  The same expression where \<open>h\<close> is reached through a const access path: a
  \<open>Handle const&\<close> parameter, or \<open>this\<close> in a const member function. Then
  \<open>&h.storage_\<close> is a pointer to const, and \<open>reinterpret_cast\<close> to the
  non-const \<open>BodyPtr*\<close> casts away const, which \<open>reinterpret_cast\<close> may not
  do: the function that contains the cast is ill-formed as soon as the branch
  is instantiated, whatever the memory. Through a non-const path the cast is
  accepted and the pointer is read.
\<close>

definition reinterpret_cast_BodyPtr :: "bool \<Rightarrow> nat \<Rightarrow> 'b memory \<Rightarrow> error + nat option" where
  "reinterpret_cast_BodyPtr through_const h s =
     (if through_const then Inl ill_formed else unique_ptr_get h s)"

text \<open>\<open>unique_ptr::release()\<close>: hand the pointer out and become null.\<close>

definition unique_ptr_release :: "nat \<Rightarrow> ('b, nat option) effect" where
  "unique_ptr_release h s =
     (case unique_ptr_get h s of
        Inl e \<Rightarrow> (Inl e, s)
      | Inr p \<Rightarrow> (Inr p, placement_new h (BodyPtr None) s))"

text \<open>
  \<open>unique_ptr::reset(p)\<close>: store \<open>p\<close>, then delete the pointer held before if
  it was not null.
\<close>

definition unique_ptr_reset :: "nat \<Rightarrow> nat option \<Rightarrow> ('b, unit) effect" where
  "unique_ptr_reset h p s =
     (case unique_ptr_get h s of
        Inl e \<Rightarrow> (Inl e, s)
      | Inr old_p \<Rightarrow>
          (case old_p of
             None \<Rightarrow> (Inr (), placement_new h (BodyPtr p) s)
           | Some a \<Rightarrow> delete a (placement_new h (BodyPtr p) s)))"

text \<open>
  \<open>dst_p = std::move(src_p)\<close> on \<open>unique_ptr\<close>: \<open>reset(src_p.release())\<close>.
  The two may be the same object.
\<close>

definition unique_ptr_move_assign :: "nat \<Rightarrow> nat \<Rightarrow> ('b, unit) effect" where
  "unique_ptr_move_assign dst src s =
     (case unique_ptr_release src s of
        (Inl e, s') \<Rightarrow> (Inl e, s')
      | (Inr p, s') \<Rightarrow> unique_ptr_reset dst p s')"

subsection \<open>Dereference: \<open>operator->\<close> and \<open>body\<close>\<close>

text \<open>
  \<open>Handle::operator->() const\<close>. In place: the address of the storage, cast
  to \<open>body_type const*\<close>. Otherwise \<open>auto const& result =
  *std::launder(reinterpret_cast<std::unique_ptr<Body>*>(&storage_));\<close>, where
  \<open>storage_\<close> is const because the member function is, then
  \<open>assert(result != nullptr)\<close>, which is compiled out under \<open>NDEBUG\<close>, and
  \<open>result.get()\<close>. The cast makes this branch ill-formed, so for a body that
  does not fit the operator cannot be instantiated.
\<close>

definition operator_arrow :: "'b Handle_inst \<Rightarrow> nat \<Rightarrow> 'b memory \<Rightarrow> error + pointer" where
  "operator_arrow I this s =
     (if \<not> Handle_static_assert I then Inl ill_formed
      else if fits_Body I then
        (case handles s this of
           Some (InPlace b) \<Rightarrow> Inr (in_storage this)
         | _ \<Rightarrow> Inl undefined_behaviour)
      else
        (case reinterpret_cast_BodyPtr True this s of
           Inl e \<Rightarrow> Inl e
         | Inr result \<Rightarrow>
             if \<not> NDEBUG I \<and> result = None then Inl assertion_failed
             else Inr (case result of None \<Rightarrow> nullptr | Some a \<Rightarrow> on_heap a)))"

text \<open>
  The non-const overload: it calls the const overload and casts \<open>const\<close> away
  with \<open>const_cast\<close>, so it is instantiated only where the const overload is.
\<close>

definition operator_arrow_mut :: "'b Handle_inst \<Rightarrow> nat \<Rightarrow> 'b memory \<Rightarrow> error + pointer" where
  "operator_arrow_mut I this s = operator_arrow I this s"

text \<open>Reading through a pointer to a body; only a live body can be read.\<close>

definition deref :: "pointer \<Rightarrow> 'b memory \<Rightarrow> error + 'b" where
  "deref p s =
     (case p of
        nullptr \<Rightarrow> Inl undefined_behaviour
      | in_storage h \<Rightarrow>
          (case handles s h of
             Some (InPlace b) \<Rightarrow> Inr b
           | _ \<Rightarrow> Inl undefined_behaviour)
      | on_heap a \<Rightarrow>
          (if a < length (heap s)
           then (case heap s ! a of Some b \<Rightarrow> Inr b | None \<Rightarrow> Inl undefined_behaviour)
           else Inl undefined_behaviour))"

text \<open>Writing through a pointer to a body; only a live body can be written.\<close>

definition assign_through :: "pointer \<Rightarrow> 'b \<Rightarrow> ('b, unit) effect" where
  "assign_through p v s =
     (case deref p s of
        Inl e \<Rightarrow> (Inl e, s)
      | Inr _ \<Rightarrow>
          (case p of
             nullptr \<Rightarrow> (Inl undefined_behaviour, s)
           | in_storage h \<Rightarrow> (Inr (), placement_new h (InPlace v) s)
           | on_heap a \<Rightarrow> (Inr (), s\<lparr>heap := (heap s)[a := Some v]\<rparr>)))"

text \<open>
  \<open>::body(handle)\<close>: \<open>*(handle.operator->())\<close>, with what \<open>operator->\<close>
  does, also where it is ill-formed.
\<close>

definition body :: "'b Handle_inst \<Rightarrow> nat \<Rightarrow> 'b memory \<Rightarrow> error + 'b" where
  "body I handle s =
     (case operator_arrow I handle s of
        Inl e \<Rightarrow> Inl e
      | Inr p \<Rightarrow> deref p s)"

text \<open>
  A client changing the body it reaches through a handle: \<open>*h = f(*h)\<close> through
  the non-const \<open>operator->\<close>.
\<close>

definition mutate :: "'b Handle_inst \<Rightarrow> nat \<Rightarrow> ('b \<Rightarrow> 'b) \<Rightarrow> ('b, unit) effect" where
  "mutate I h f s =
     (case operator_arrow_mut I h s of
        Inl e \<Rightarrow> (Inl e, s)
      | Inr p \<Rightarrow>
          (case deref p s of
             Inl e \<Rightarrow> (Inl e, s)
           | Inr b \<Rightarrow> assign_through p (f b) s))"

subsection \<open>The special member functions\<close>

text \<open>
  \<open>Handle::Handle()\<close>. The body is constructed in place if it fits; otherwise
  \<open>static_assert(fits<BodyPtr, Size>)\<close> and a \<open>unique_ptr\<close> to a new body is
  constructed in the storage.
\<close>

definition Handle_ctor :: "'b Handle_inst \<Rightarrow> nat \<Rightarrow> ('b, unit) effect" where
  "Handle_ctor I this s =
     (if \<not> Handle_static_assert I then (Inl ill_formed, s)
      else if fits_Body I then
        (case Body_ctor I of
           Inl e \<Rightarrow> (Inl e, s)
         | Inr b \<Rightarrow> (Inr (), placement_new this (InPlace b) s))
      else if \<not> fits_BodyPtr I then (Inl ill_formed, s)
      else
        (case make_unique (Body_ctor I) s of
           (Inl e, s') \<Rightarrow> (Inl e, s')
         | (Inr a, s') \<Rightarrow> (Inr (), placement_new this (BodyPtr (Some a)) s')))"

text \<open>
  \<open>Handle::Handle(Handle const& other)\<close>. In place: copy-construct from
  \<open>::body(other)\<close>. Otherwise \<open>auto const& src_p =
  *std::launder(reinterpret_cast<BodyPtr*>(&other.storage_));\<close>, where \<open>other\<close>
  is const; if \<open>src_p\<close> is not null, clone the body it points to, else
  construct a null \<open>unique_ptr\<close>. The cast makes this branch ill-formed, so
  for a body that does not fit the copy constructor cannot be instantiated and
  what follows the cast never runs.
\<close>

definition Handle_copy_ctor :: "'b Handle_inst \<Rightarrow> nat \<Rightarrow> nat \<Rightarrow> ('b, unit) effect" where
  "Handle_copy_ctor I this other s =
     (if \<not> Handle_static_assert I then (Inl ill_formed, s)
      else if fits_Body I then
        (case body I other s of
           Inl e \<Rightarrow> (Inl e, s)
         | Inr b \<Rightarrow>
             (case Body_copy_ctor I b of
                Inl e \<Rightarrow> (Inl e, s)
              | Inr c \<Rightarrow> (Inr (), placement_new this (InPlace c) s)))
      else if \<not> fits_BodyPtr I then (Inl ill_formed, s)
      else
        (case reinterpret_cast_BodyPtr True other s of
           Inl e \<Rightarrow> (Inl e, s)
         | Inr src_p \<Rightarrow>
             if src_p \<noteq> None then
               (case body I other s of
                  Inl e \<Rightarrow> (Inl e, s)
                | Inr b \<Rightarrow>
                    (case make_unique (Body_copy_ctor I b) s of
                       (Inl e, s') \<Rightarrow> (Inl e, s')
                     | (Inr a, s') \<Rightarrow> (Inr (), placement_new this (BodyPtr (Some a)) s')))
             else (Inr (), placement_new this (BodyPtr None) s)))"

text \<open>
  \<open>Handle::Handle(Handle&& other) noexcept\<close>. In place: move-construct from
  \<open>::body(other)\<close>, which leaves the body of \<open>other\<close> in its moved-from value.
  Otherwise move-construct the \<open>unique_ptr\<close>: take the pointer of \<open>other\<close>,
  which becomes null.
\<close>

definition Handle_move_ctor :: "'b Handle_inst \<Rightarrow> nat \<Rightarrow> nat \<Rightarrow> ('b, unit) effect" where
  "Handle_move_ctor I this other s =
     (if \<not> Handle_static_assert I then (Inl ill_formed, s)
      else if fits_Body I then
        (case body I other s of
           Inl e \<Rightarrow> (Inl e, s)
         | Inr b \<Rightarrow>
             (Inr (),
              placement_new this (InPlace (fst (Body_move_ctor I b)))
                (placement_new other (InPlace (snd (Body_move_ctor I b))) s)))
      else if \<not> fits_BodyPtr I then (Inl ill_formed, s)
      else
        (case unique_ptr_release other s of
           (Inl e, s') \<Rightarrow> (Inl e, s')
         | (Inr p, s') \<Rightarrow> (Inr (), placement_new this (BodyPtr p) s')))"

text \<open>
  \<open>Handle::~Handle() noexcept\<close>. In place: the destructor of the body.
  Otherwise \<open>p.reset()\<close>. Afterwards the handle is no longer live.
\<close>

definition Handle_dtor :: "'b Handle_inst \<Rightarrow> nat \<Rightarrow> ('b, unit) effect" where
  "Handle_dtor I this s =
     (if \<not> Handle_static_assert I then (Inl ill_formed, s)
      else if fits_Body I then
        (case body I this s of
           Inl e \<Rightarrow> (Inl e, s)
         | Inr b \<Rightarrow> (Inr (), s\<lparr>handles := (handles s)(this := None)\<rparr>))
      else
        (case unique_ptr_reset this None s of
           (Inl e, s') \<Rightarrow> (Inl e, s')
         | (Inr u, s') \<Rightarrow> (Inr (), s'\<lparr>handles := (handles s')(this := None)\<rparr>)))"

text \<open>
  \<open>Handle::operator=(Handle&& other) noexcept\<close>. In place:
  \<open>::body(*this) = std::move(::body(other))\<close>, the move assignment of the
  body, on one object when \<open>this\<close> is \<open>other\<close>. Otherwise the move
  assignment of \<open>unique_ptr\<close>.
\<close>

definition Handle_move_assign :: "'b Handle_inst \<Rightarrow> nat \<Rightarrow> nat \<Rightarrow> ('b, unit) effect" where
  "Handle_move_assign I this other s =
     (if \<not> Handle_static_assert I then (Inl ill_formed, s)
      else if fits_Body I then
        (case body I other s of
           Inl e \<Rightarrow> (Inl e, s)
         | Inr src \<Rightarrow>
             (case body I this s of
                Inl e \<Rightarrow> (Inl e, s)
              | Inr dst \<Rightarrow>
                  if this = other
                  then (Inr (), placement_new this (InPlace (Body_self_move_assign I dst)) s)
                  else (Inr (),
                        placement_new this (InPlace (fst (Body_move_assign I dst src)))
                          (placement_new other (InPlace (snd (Body_move_assign I dst src))) s))))
      else if \<not> fits_BodyPtr I then (Inl ill_formed, s)
      else unique_ptr_move_assign this other s)"

text \<open>
  \<open>Handle::operator=(Handle const& other)\<close>: \<open>auto tmp = other; *this =
  std::move(tmp); return *this;\<close> and \<open>tmp\<close> is destroyed when the function
  returns. \<open>tmp\<close> is the address of the local variable. The first statement
  instantiates the copy constructor, with what that does.
\<close>

definition Handle_copy_assign :: "'b Handle_inst \<Rightarrow> nat \<Rightarrow> nat \<Rightarrow> nat \<Rightarrow> ('b, unit) effect" where
  "Handle_copy_assign I tmp this other s =
     (case Handle_copy_ctor I tmp other s of
        (Inl e, s1) \<Rightarrow> (Inl e, s1)
      | (Inr u, s1) \<Rightarrow>
          (case Handle_move_assign I this tmp s1 of
             (Inl e, s2) \<Rightarrow> (Inl e, s2)
           | (Inr u, s2) \<Rightarrow> Handle_dtor I tmp s2))"

section \<open>HandleImpl.v2.h: the handle that always allocates\<close>

text \<open>
  \<open>lib::Handle<Body>\<close> of version 2 has one member, \<open>std::unique_ptr<Body>
  handle_\<close>; its storage always holds a \<open>BodyPtr\<close>. The sizes of the
  instantiation play no role.
\<close>

text \<open>\<open>Handle::Handle() : handle_{std::make_unique<Body>()}\<close>.\<close>

definition Handle_v2_ctor :: "'b Handle_inst \<Rightarrow> nat \<Rightarrow> ('b, unit) effect" where
  "Handle_v2_ctor I this s =
     (case make_unique (Body_ctor I) s of
        (Inl e, s') \<Rightarrow> (Inl e, s')
      | (Inr a, s') \<Rightarrow> (Inr (), placement_new this (BodyPtr (Some a)) s'))"

text \<open>
  \<open>Handle::Handle(Handle const& other)\<close>: \<open>handle_\<close> is default-initialised
  to null; \<open>if (other.handle_ != nullptr) handle_ =
  std::make_unique<Body>(*other.handle_);\<close>. When \<open>make_unique\<close> throws, the
  member is destroyed again and no handle comes to life.
\<close>

definition Handle_v2_copy_ctor :: "'b Handle_inst \<Rightarrow> nat \<Rightarrow> nat \<Rightarrow> ('b, unit) effect" where
  "Handle_v2_copy_ctor I this other s =
     (case unique_ptr_get other (placement_new this (BodyPtr None) s) of
        Inl e \<Rightarrow> (Inl e, s)
      | Inr other_handle \<Rightarrow>
          (case other_handle of
             None \<Rightarrow> (Inr (), placement_new this (BodyPtr None) s)
           | Some a \<Rightarrow>
               (case deref (on_heap a) (placement_new this (BodyPtr None) s) of
                  Inl e \<Rightarrow> (Inl e, s)
                | Inr b \<Rightarrow>
                    (case make_unique (Body_copy_ctor I b) (placement_new this (BodyPtr None) s) of
                       (Inl e, s') \<Rightarrow> (Inl e, s'\<lparr>handles := (handles s')(this := None)\<rparr>)
                     | (Inr a', s') \<Rightarrow> unique_ptr_reset this (Some a') s'))))"

text \<open>\<open>Handle::Handle(Handle&& other) noexcept = default\<close>.\<close>

definition Handle_v2_move_ctor :: "'b Handle_inst \<Rightarrow> nat \<Rightarrow> nat \<Rightarrow> ('b, unit) effect" where
  "Handle_v2_move_ctor I this other s =
     (case unique_ptr_release other s of
        (Inl e, s') \<Rightarrow> (Inl e, s')
      | (Inr p, s') \<Rightarrow> (Inr (), placement_new this (BodyPtr p) s'))"

text \<open>\<open>Handle::~Handle() noexcept = default\<close>: the destructor of \<open>unique_ptr\<close>.\<close>

definition Handle_v2_dtor :: "'b Handle_inst \<Rightarrow> nat \<Rightarrow> ('b, unit) effect" where
  "Handle_v2_dtor I this s =
     (case unique_ptr_reset this None s of
        (Inl e, s') \<Rightarrow> (Inl e, s')
      | (Inr u, s') \<Rightarrow> (Inr (), s'\<lparr>handles := (handles s')(this := None)\<rparr>))"

text \<open>\<open>Handle::operator=(Handle&& other) noexcept = default\<close>.\<close>

definition Handle_v2_move_assign :: "'b Handle_inst \<Rightarrow> nat \<Rightarrow> nat \<Rightarrow> ('b, unit) effect" where
  "Handle_v2_move_assign I this other s = unique_ptr_move_assign this other s"

text \<open>\<open>Handle::operator=(Handle const& other)\<close>, as in version 3.\<close>

definition Handle_v2_copy_assign :: "'b Handle_inst \<Rightarrow> nat \<Rightarrow> nat \<Rightarrow> nat \<Rightarrow> ('b, unit) effect" where
  "Handle_v2_copy_assign I tmp this other s =
     (case Handle_v2_copy_ctor I tmp other s of
        (Inl e, s1) \<Rightarrow> (Inl e, s1)
      | (Inr u, s1) \<Rightarrow>
          (case Handle_v2_move_assign I this tmp s1 of
             (Inl e, s2) \<Rightarrow> (Inl e, s2)
           | (Inr u, s2) \<Rightarrow> Handle_v2_dtor I tmp s2))"

text \<open>
  \<open>Handle::operator->\<close>, both overloads: \<open>assert(handle_ != nullptr); return
  handle_.get();\<close>.
\<close>

definition Handle_v2_operator_arrow :: "'b Handle_inst \<Rightarrow> nat \<Rightarrow> 'b memory \<Rightarrow> error + pointer" where
  "Handle_v2_operator_arrow I this s =
     (case unique_ptr_get this s of
        Inl e \<Rightarrow> Inl e
      | Inr handle \<Rightarrow>
          if \<not> NDEBUG I \<and> handle = None then Inl assertion_failed
          else Inr (case handle of None \<Rightarrow> nullptr | Some a \<Rightarrow> on_heap a))"

text \<open>\<open>*h\<close> for a handle of version 2: \<open>*(h.operator->())\<close>.\<close>

definition Handle_v2_body :: "'b Handle_inst \<Rightarrow> nat \<Rightarrow> 'b memory \<Rightarrow> error + 'b" where
  "Handle_v2_body I handle s =
     (case Handle_v2_operator_arrow I handle s of
        Inl e \<Rightarrow> Inl e
      | Inr p \<Rightarrow> deref p s)"

text \<open>
  The allocator is untouched between two memories: the same heap cells, the same
  free store, and no call to \<open>operator new\<close> or \<open>operator delete\<close>.
\<close>

definition allocator_untouched :: "'b memory \<Rightarrow> 'b memory \<Rightarrow> bool" where
  "allocator_untouched s s' \<longleftrightarrow>
     heap s' = heap s \<and> free_store s' = free_store s \<and> allocs s' = allocs s
     \<and> frees s' = frees s"

section \<open>Two instantiations\<close>

text \<open>
  A 64-bit platform: pointers and \<open>unique_ptr\<close> have size and alignment 8, and
  \<open>std::aligned_storage_t<N>\<close> has the default alignment 16 from 16 bytes on.
  \<open>SmallCounter\<close> wraps an \<open>int\<close> that starts at 0 and is stored in place in a
  handle of 32 bytes; \<open>LargeBuffer\<close> has 200 bytes and does not fit.
  Copying either gives an equal value and moving leaves the source as it was.
\<close>

definition SmallCounter :: "int Handle_inst" where
  "SmallCounter =
     \<lparr>Size = 32, sizeof_voidp = 8, sizeof_Body = 4, alignof_Body = 4,
      sizeof_BodyPtr = 8, alignof_BodyPtr = 8,
      alignof_aligned_storage = (\<lambda>n. if 16 \<le> n then 16 else 8),
      NDEBUG = False,
      Body_ctor = Inr 0, Body_copy_ctor = Inr,
      Body_move_ctor = (\<lambda>b. (b, b)),
      Body_move_assign = (\<lambda>d s. (s, s)),
      Body_self_move_assign = (\<lambda>b. b)\<rparr>"

definition LargeBuffer :: "int Handle_inst" where
  "LargeBuffer = SmallCounter\<lparr>sizeof_Body := 200, alignof_Body := 8\<rparr>"

text \<open>
  A memory with nothing in it and eight cells to hand out, and memories with one
  handle at address 0: in place, null, and owning the heap cell 0.
\<close>

definition mem_empty :: "int memory" where
  "mem_empty = \<lparr>handles = Map.empty, heap = [], free_store = 8, allocs = 0, frees = 0\<rparr>"

definition mem_inplace :: "int memory" where
  "mem_inplace = mem_empty\<lparr>handles := [0 \<mapsto> InPlace 7]\<rparr>"

definition mem_null :: "int memory" where
  "mem_null = mem_empty\<lparr>handles := [0 \<mapsto> BodyPtr None]\<rparr>"

definition mem_owner :: "int memory" where
  "mem_owner =
     \<lparr>handles = [0 \<mapsto> BodyPtr (Some 0)], heap = [Some 7], free_store = 7,
      allocs = 1, frees = 0\<rparr>"

text \<open>
  Memories with two handles, at addresses 0 and 1: each owning a heap cell, and
  each holding its body in place.
\<close>

definition mem_pair :: "int memory" where
  "mem_pair =
     \<lparr>handles = [0 \<mapsto> BodyPtr (Some 0), 1 \<mapsto> BodyPtr (Some 1)], heap = [Some 7, Some 3],
      free_store = 6, allocs = 2, frees = 0\<rparr>"

definition mem_inplace_pair :: "int memory" where
  "mem_inplace_pair = mem_empty\<lparr>handles := [0 \<mapsto> InPlace 7, 1 \<mapsto> InPlace 3]\<rparr>"

section \<open>Survival.hpp: the survival-probability protocol\<close>

text \<open>
  \<open>pdg::Probability\<close> and \<open>pdg::Time\<close> are \<open>double\<close>. The code uses four
  operations on \<open>double\<close>: the conversion of the literal \<open>0\<close>, \<open>a <= b\<close> (also
  written \<open>b >= a\<close>), \<open>a == b\<close> and \<open>a / b\<close>. They are parameters, so that what
  is proved holds for IEEE arithmetic, with its rounding, infinities and NaN.
\<close>

record 'd double_ops =
  d_zero :: 'd
  d_le :: "'d \<Rightarrow> 'd \<Rightarrow> bool"
  d_eq :: "'d \<Rightarrow> 'd \<Rightarrow> bool"
  d_div :: "'d \<Rightarrow> 'd \<Rightarrow> 'd"

text \<open>
  An object of a class that implements \<open>pdg::Survival\<close>: its final overriders
  of the three virtual functions. Each may throw.
\<close>

record 'd Survival =
  survival_prob_impl :: "'d \<Rightarrow> error + 'd"
  hazard_rate_impl :: "'d \<Rightarrow> error + 'd"
  conditional_survival_prob_impl :: "'d \<Rightarrow> 'd \<Rightarrow> error + 'd"

text \<open>\<open>Survival::survival_prob(T)\<close>: \<open>assert(T >= 0); return survival_prob_impl(T);\<close>.\<close>

definition survival_prob :: "'d double_ops \<Rightarrow> bool \<Rightarrow> 'd Survival \<Rightarrow> 'd \<Rightarrow> error + 'd" where
  "survival_prob D ndebug this T =
     (if \<not> ndebug \<and> \<not> d_le D (d_zero D) T then Inl assertion_failed
      else survival_prob_impl this T)"

text \<open>
  \<open>Survival::conditional_survival_prob(T, t)\<close>: \<open>assert(0 <= t); assert(t <= T);
  return conditional_survival_prob_impl(T, t);\<close>, a virtual call.
\<close>

definition conditional_survival_prob ::
  "'d double_ops \<Rightarrow> bool \<Rightarrow> 'd Survival \<Rightarrow> 'd \<Rightarrow> 'd \<Rightarrow> error + 'd" where
  "conditional_survival_prob D ndebug this T t =
     (if \<not> ndebug \<and> \<not> d_le D (d_zero D) t then Inl assertion_failed
      else if \<not> ndebug \<and> \<not> d_le D t T then Inl assertion_failed
      else conditional_survival_prob_impl this T t)"

text \<open>\<open>Survival::hazard_rate(T)\<close>: \<open>assert(T >= 0); return hazard_rate_impl(T);\<close>.\<close>

definition hazard_rate :: "'d double_ops \<Rightarrow> bool \<Rightarrow> 'd Survival \<Rightarrow> 'd \<Rightarrow> error + 'd" where
  "hazard_rate D ndebug this T =
     (if \<not> ndebug \<and> \<not> d_le D (d_zero D) T then Inl assertion_failed
      else hazard_rate_impl this T)"

text \<open>
  The default implementation \<open>pdg::Survival::conditional_survival_prob_impl(T, t)\<close>,
  which a class opts into: the two assertions, \<open>auto const S_t = survival_prob(t);
  if (S_t == 0) throw computation_error{}; return survival_prob(T) / S_t;\<close>.
\<close>

definition Survival_conditional_survival_prob_impl ::
  "'d double_ops \<Rightarrow> bool \<Rightarrow> 'd Survival \<Rightarrow> 'd \<Rightarrow> 'd \<Rightarrow> error + 'd" where
  "Survival_conditional_survival_prob_impl D ndebug this T t =
     (if \<not> ndebug \<and> \<not> d_le D (d_zero D) t then Inl assertion_failed
      else if \<not> ndebug \<and> \<not> d_le D t T then Inl assertion_failed
      else
        (case survival_prob D ndebug this t of
           Inl e \<Rightarrow> Inl e
         | Inr S_t \<Rightarrow>
             if d_eq D S_t (d_zero D) then Inl computation_error
             else
               (case survival_prob D ndebug this T of
                  Inl e \<Rightarrow> Inl e
                | Inr S_T \<Rightarrow> Inr (d_div D S_T S_t))))"

text \<open>
  For the examples, \<open>double\<close> idealised as the reals, and a system that survives
  surely until time 1, with probability one half until time 2, and not beyond;
  from time 3 on its computation fails with \<open>computation_error\<close>. It opts into
  the default implementation of the conditional probability.
\<close>

definition real_double :: "real double_ops" where
  "real_double = \<lparr>d_zero = 0, d_le = (\<le>), d_eq = (=), d_div = (/)\<rparr>"

definition step_survival_prob :: "real \<Rightarrow> error + real" where
  "step_survival_prob T =
     (if T < 1 then Inr 1 else if T < 2 then Inr (1 / 2) else if T < 3 then Inr 0
      else Inl computation_error)"

definition step_system :: "real Survival" where
  "step_system =
     \<lparr>survival_prob_impl = step_survival_prob,
      hazard_rate_impl = (\<lambda>T. Inr 0),
      conditional_survival_prob_impl =
        Survival_conditional_survival_prob_impl real_double False
          \<lparr>survival_prob_impl = step_survival_prob, hazard_rate_impl = (\<lambda>T. Inr 0),
           conditional_survival_prob_impl = (\<lambda>T t. Inl computation_error)\<rparr>\<rparr>"

section \<open>PrintableValueProtocol.hpp: values that print themselves\<close>

text \<open>
  The dynamic type of an object behind \<open>lib::PrintableValueProtocol\<close>: the
  \<open>NullPrintableValue\<close> of the unnamed namespace, or the
  \<open>PrintableValueAdapter<T>\<close> of PrintableValueAdapter.hpp with its member
  \<open>impl_\<close>.
\<close>

datatype 'v printable = NullPrintableValue | PrintableValueAdapter 'v

text \<open>
  What the functions act on: the characters written to \<open>stdout\<close> so far, the
  heap cells that hold printable objects (a new cell is appended, so its
  address is fresh), and the number of cells the allocator can still hand out.
\<close>

record 'v process =
  stdout :: string
  objects :: "'v printable option list"
  cells_left :: nat

text \<open>
  The virtual \<open>print_impl()\<close>. \<open>NullPrintableValue::print_impl\<close> is
  intentionally blank; the adapter calls its customisation point \<open>print_cp\<close>,
  whose output for a value is a parameter.
\<close>

definition print_impl ::
  "('v \<Rightarrow> string) \<Rightarrow> 'v printable \<Rightarrow> 'v process \<Rightarrow> 'v process" where
  "print_impl print_cp this w =
     (case this of
        NullPrintableValue \<Rightarrow> w
      | PrintableValueAdapter impl \<Rightarrow> w\<lparr>stdout := stdout w @ print_cp impl\<rparr>)"

text \<open>\<open>PrintableValueProtocol::print() const { return print_impl(); }\<close>.\<close>

definition print :: "('v \<Rightarrow> string) \<Rightarrow> 'v printable \<Rightarrow> 'v process \<Rightarrow> 'v process" where
  "print print_cp this w = print_impl print_cp this w"

text \<open>
  \<open>std::make_unique<C>(args)\<close> for a printable class: \<open>std::bad_alloc\<close> when
  no cell is left, else a \<open>unique_ptr\<close> (\<open>None\<close> would be the null pointer)
  to a new cell.
\<close>

definition make_unique_printable ::
  "'v printable \<Rightarrow> 'v process \<Rightarrow> (error + nat option) \<times> 'v process" where
  "make_unique_printable obj w =
     (if cells_left w = 0 then (Inl bad_alloc, w)
      else (Inr (Some (length (objects w))),
            w\<lparr>objects := objects w @ [Some obj], cells_left := cells_left w - 1\<rparr>))"

text \<open>
  The virtual \<open>clone_impl()\<close>: \<open>std::make_unique<NullPrintableValue>()\<close>, and
  \<open>std::make_unique<lib::PrintableValueAdapter<T>>(impl_)\<close> for the adapter,
  whose \<open>T\<close> is copied as a value.
\<close>

definition clone_impl ::
  "'v printable \<Rightarrow> 'v process \<Rightarrow> (error + nat option) \<times> 'v process" where
  "clone_impl this w =
     (case this of
        NullPrintableValue \<Rightarrow> make_unique_printable NullPrintableValue w
      | PrintableValueAdapter impl \<Rightarrow> make_unique_printable (PrintableValueAdapter impl) w)"

text \<open>\<open>PrintableValueProtocol::clone() const { return clone_impl(); }\<close>.\<close>

definition clone :: "'v printable \<Rightarrow> 'v process \<Rightarrow> (error + nat option) \<times> 'v process" where
  "clone this w = clone_impl this w"

text \<open>\<open>PrintableValueProtocol::Default = ::NullPrintableValue{}\<close>.\<close>

definition Default :: "'v printable" where
  "Default = NullPrintableValue"

text \<open>\<open>PrintableValueProtocol::getDefault()\<close>: \<open>return Default.clone();\<close>.\<close>

definition getDefault :: "'v process \<Rightarrow> (error + nat option) \<times> 'v process" where
  "getDefault w = clone Default w"

text \<open>
  A client printing the object a \<open>unique_ptr\<close> owns, \<open>p->print()\<close>; only a live
  object can be printed.
\<close>

definition print_through ::
  "('v \<Rightarrow> string) \<Rightarrow> nat option \<Rightarrow> 'v process \<Rightarrow> (error + unit) \<times> 'v process" where
  "print_through print_cp p w =
     (case p of
        None \<Rightarrow> (Inl undefined_behaviour, w)
      | Some a \<Rightarrow>
          (if a < length (objects w)
           then (case objects w ! a of
                   None \<Rightarrow> (Inl undefined_behaviour, w)
                 | Some obj \<Rightarrow> (Inr (), print print_cp obj w))
           else (Inl undefined_behaviour, w)))"

text \<open>A process that has printed \<open>abc\<close>, holds one adapter and has room for more.\<close>

definition some_process :: "nat process" where
  "some_process =
     \<lparr>stdout = ''abc'', objects = [Some (PrintableValueAdapter 5)], cells_left = 3\<rparr>"

section \<open>Verified properties\<close>

lemmas Handle_defs =
  fits_Body_def fits_BodyPtr_def Handle_static_assert_def make_unique_def delete_def
  placement_new_def unique_ptr_get_def reinterpret_cast_BodyPtr_def unique_ptr_release_def
  unique_ptr_reset_def unique_ptr_move_assign_def operator_arrow_def operator_arrow_mut_def deref_def
  assign_through_def body_def mutate_def Handle_ctor_def Handle_copy_ctor_def
  Handle_move_ctor_def Handle_dtor_def Handle_move_assign_def Handle_copy_assign_def

lemmas Handle_v2_defs =
  Handle_v2_body_def Handle_v2_ctor_def Handle_v2_copy_ctor_def Handle_v2_move_ctor_def
  Handle_v2_dtor_def Handle_v2_move_assign_def Handle_v2_copy_assign_def Handle_v2_operator_arrow_def

lemmas Survival_defs =
  survival_prob_def conditional_survival_prob_def Survival_conditional_survival_prob_impl_def

lemmas Survival_example_defs = real_double_def step_survival_prob_def step_system_def

lemmas Printable_defs =
  print_impl_def print_def make_unique_printable_def clone_impl_def clone_def Default_def
  getDefault_def print_through_def

lemmas example_defs =
  fits_def SmallCounter_def LargeBuffer_def mem_empty_def mem_inplace_def mem_null_def
  mem_owner_def mem_pair_def mem_inplace_pair_def

subsection \<open>Copy construction\<close>

text \<open>
  Claim C1. The copy constructor of version 3 means to propagate null: its
  indirect branch tests the pointer of the source and constructs a null
  \<open>unique_ptr\<close> when the source is null. But it reads that pointer through
  \<open>reinterpret_cast<BodyPtr*>(&other.storage_)\<close> with \<open>other\<close> const, so for
  every body that does not fit the copy constructor is ill-formed, whatever the
  source and the memory: no handle, null or not, results from a copy. Version
  2, which holds the \<open>unique_ptr\<close> as a member, does what the claim says.
  From a null source it returns normally with a new handle whose pointer is
  null and changes nothing else, and the copy constructor of the body is not
  consulted (replacing it by any \<open>f\<close> gives the same result). From a source
  that owns a live body \<open>b\<close>, when a cell is available and the body's copy
  constructor returns \<open>c\<close>, it allocates one new cell holding \<open>c\<close> and
  makes the new handle point to it.
\<close>

theorem Handle_copy_ctor_null_propagation:
  assumes "this \<noteq> other"
  shows "(\<not> fits_Body I \<longrightarrow> Handle_copy_ctor I this other s = (Inl ill_formed, s))
       \<and> (handles s other = Some (BodyPtr None) \<longrightarrow>
            Handle_v2_copy_ctor I this other s =
              (Inr (), placement_new this (BodyPtr None) s)
          \<and> Handle_v2_copy_ctor (I\<lparr>Body_copy_ctor := f\<rparr>) this other s =
              Handle_v2_copy_ctor I this other s)
       \<and> (handles s other = Some (BodyPtr (Some a)) \<and> a < length (heap s)
            \<and> heap s ! a = Some b \<and> 0 < free_store s \<and> Body_copy_ctor I b = Inr c \<longrightarrow>
            Handle_v2_copy_ctor I this other s =
               (Inr (),
                placement_new this (BodyPtr (Some (length (heap s))))
                  (s\<lparr>heap := heap s @ [Some c], free_store := free_store s - 1,
                     allocs := Suc (allocs s)\<rparr>)))"
  using assms by (simp add: Handle_defs Handle_v2_defs)

theorem Handle_copy_ctor_null_propagation_witness:
  "Handle_copy_ctor LargeBuffer 1 0 mem_null = (Inl ill_formed, mem_null)
   \<and> Handle_copy_ctor LargeBuffer 1 0 mem_owner = (Inl ill_formed, mem_owner)
   \<and> Handle_v2_copy_ctor LargeBuffer 1 0 mem_null =
       (Inr (), placement_new 1 (BodyPtr None) mem_null)
   \<and> Handle_v2_copy_ctor LargeBuffer 1 0 mem_owner =
       (Inr (),
        \<lparr>handles = [0 \<mapsto> BodyPtr (Some 0), 1 \<mapsto> BodyPtr (Some 1)],
         heap = [Some 7, Some 7], free_store = 6, allocs = 2, frees = 0\<rparr>)"
proof -
  have c: "\<not> fits_Body LargeBuffer" "(1::nat) \<noteq> 0"
    by (simp_all add: Handle_defs example_defs)
  have n: "handles mem_null 0 = Some (BodyPtr None)"
    by (simp add: example_defs)
  have v: "handles mem_owner 0 = Some (BodyPtr (Some 0)) \<and> 0 < length (heap mem_owner)
      \<and> heap mem_owner ! 0 = Some 7 \<and> 0 < free_store mem_owner
      \<and> Body_copy_ctor LargeBuffer 7 = Inr 7"
    by (simp add: example_defs)
  show ?thesis
    using Handle_copy_ctor_null_propagation [OF c(2), of LargeBuffer mem_null undefined 0 7 7]
      Handle_copy_ctor_null_propagation [OF c(2), of LargeBuffer mem_owner undefined 0 7 7]
      c(1) n v
    by (simp add: placement_new_def example_defs)
qed

subsection \<open>Move construction\<close>

text \<open>
  Claim C2. Move construction from a valid handle \<open>other\<close> into \<open>this\<close>
  returns normally. Indirect representation: only the two pointer slots change
  (\<open>this\<close> takes the pointer, \<open>other\<close> becomes null), so the heap and the
  counters of allocations and deallocations are untouched, and the cell that
  \<open>this\<close> now owns still holds the body \<open>b\<close> that \<open>other\<close> had.
  Afterwards destroying \<open>other\<close> deletes nothing and leaves that body alive,
  and destroying \<open>this\<close> then deletes it, once. But \<open>*h2\<close> cannot be read
  and the moved-from \<open>other\<close> cannot be copied: \<open>operator->\<close> and the copy
  constructor are ill-formed for a body that does not fit. In-place
  representation: \<open>this\<close> holds what the body's move constructor built (the
  value \<open>other\<close> had, when the body's move constructor preserves the value),
  \<open>other\<close> still holds a live body, the one the move left behind; copying
  \<open>other\<close> fails only if the body's copy constructor throws, and destroying
  \<open>other\<close> leaves \<open>this\<close> intact.
\<close>

theorem Handle_move_ctor_moved_from:
  assumes "Handle_static_assert I" and "this \<noteq> other"
  shows "(\<not> fits_Body I \<and> fits_BodyPtr I \<and> handles s other = Some (BodyPtr (Some a))
            \<and> a < length (heap s) \<and> heap s ! a = Some b \<longrightarrow>
          (let s' = s\<lparr>handles := (handles s)(other \<mapsto> BodyPtr None, this \<mapsto> BodyPtr (Some a))\<rparr>;
               s'' = s'\<lparr>handles := (handles s')(other := None)\<rparr>
           in Handle_move_ctor I this other s = (Inr (), s')
            \<and> deref (on_heap a) s' = Inr b
            \<and> body I this s' = Inl ill_formed
            \<and> Handle_copy_ctor I h3 other s' = (Inl ill_formed, s')
            \<and> Handle_dtor I other s' = (Inr (), s'')
            \<and> deref (on_heap a) s'' = Inr b
            \<and> Handle_dtor I this s'' =
                (Inr (),
                 s''\<lparr>handles := (handles s'')(this := None), heap := (heap s)[a := None],
                     free_store := Suc (free_store s), frees := Suc (frees s)\<rparr>)))
       \<and> (fits_Body I \<and> handles s other = Some (InPlace b) \<longrightarrow>
          (let s' = s\<lparr>handles := (handles s)(other \<mapsto> InPlace (snd (Body_move_ctor I b)),
                                              this \<mapsto> InPlace (fst (Body_move_ctor I b)))\<rparr>;
               s'' = s'\<lparr>handles := (handles s')(other := None)\<rparr>
           in Handle_move_ctor I this other s = (Inr (), s')
            \<and> body I this s' = Inr (fst (Body_move_ctor I b))
            \<and> (fst (Body_move_ctor I b) = b \<longrightarrow> body I this s' = body I other s)
            \<and> body I other s' = Inr (snd (Body_move_ctor I b))
            \<and> Handle_copy_ctor I h3 other s' =
                (case Body_copy_ctor I (snd (Body_move_ctor I b)) of
                   Inl e \<Rightarrow> (Inl e, s')
                 | Inr c \<Rightarrow> (Inr (), placement_new h3 (InPlace c) s'))
            \<and> Handle_dtor I other s' = (Inr (), s'')
            \<and> body I this s'' = Inr (fst (Body_move_ctor I b))))"
  using assms
  by (simp add: Handle_defs Let_def)

theorem Handle_move_ctor_moved_from_witness:
  "Handle_move_ctor LargeBuffer 1 0 mem_owner =
     (Inr (), mem_owner\<lparr>handles := [0 \<mapsto> BodyPtr None, 1 \<mapsto> BodyPtr (Some 0)]\<rparr>)
   \<and> body LargeBuffer 1
       (mem_owner\<lparr>handles := [0 \<mapsto> BodyPtr None, 1 \<mapsto> BodyPtr (Some 0)]\<rparr>) =
     Inl ill_formed
   \<and> Handle_copy_ctor LargeBuffer 2 0
       (mem_owner\<lparr>handles := [0 \<mapsto> BodyPtr None, 1 \<mapsto> BodyPtr (Some 0)]\<rparr>) =
     (Inl ill_formed, mem_owner\<lparr>handles := [0 \<mapsto> BodyPtr None, 1 \<mapsto> BodyPtr (Some 0)]\<rparr>)
   \<and> Handle_move_ctor (SmallCounter\<lparr>Body_move_ctor := \<lambda>b. (b, 0)\<rparr>) 1 0 mem_inplace =
     (Inr (), mem_inplace\<lparr>handles := [0 \<mapsto> InPlace 0, 1 \<mapsto> InPlace 7]\<rparr>)
   \<and> Handle_dtor LargeBuffer 0
       (mem_owner\<lparr>handles := [0 \<mapsto> BodyPtr None, 1 \<mapsto> BodyPtr (Some 0)]\<rparr>) =
     (Inr (), mem_owner\<lparr>handles := [1 \<mapsto> BodyPtr (Some 0)]\<rparr>)"
proof -
  have c: "Handle_static_assert LargeBuffer" "(1::nat) \<noteq> 0"
    by (simp_all add: Handle_defs example_defs)
  have d: "Handle_static_assert (SmallCounter\<lparr>Body_move_ctor := \<lambda>b. (b, 0)\<rparr>)"
    by (simp add: Handle_defs example_defs)
  have v: "\<not> fits_Body LargeBuffer \<and> fits_BodyPtr LargeBuffer
      \<and> handles mem_owner 0 = Some (BodyPtr (Some 0)) \<and> 0 < length (heap mem_owner)
      \<and> heap mem_owner ! 0 = Some 7"
    by (simp add: Handle_defs example_defs)
  have w: "fits_Body (SmallCounter\<lparr>Body_move_ctor := \<lambda>b. (b, 0)\<rparr>)
      \<and> handles mem_inplace 0 = Some (InPlace 7)
      \<and> Body_move_ctor (SmallCounter\<lparr>Body_move_ctor := \<lambda>b. (b, 0)\<rparr>) 7 = (7, 0)"
    by (simp add: Handle_defs example_defs)
  have u: "[0 \<mapsto> BodyPtr None, 1 \<mapsto> BodyPtr (Some 0)](0 := None) =
      [(1::nat) \<mapsto> BodyPtr (Some (0::nat)) :: int storage]"
    by (rule ext) simp
  show ?thesis
    using Handle_move_ctor_moved_from [OF c, of mem_owner 0 7 2]
      Handle_move_ctor_moved_from [OF d c(2), of mem_inplace 0 7 2] v w u
    by (simp add: Let_def example_defs)
qed

subsection \<open>Copy assignment\<close>

text \<open>
  A copy constructor that fails changes neither the live handles nor the live
  heap cells; and a local handle that has been destroyed leaves the handles as
  they were before it was constructed.
\<close>

lemma Handle_copy_ctor_failure:
  "Handle_copy_ctor I this other s = (Inl e, s1) \<Longrightarrow>
     handles s1 = handles s \<and> heap s1 = heap s \<and> free_store s1 = free_store s"
  by (auto simp: Handle_copy_ctor_def make_unique_def reinterpret_cast_BodyPtr_def
      split: if_splits sum.splits prod.splits)

lemma Handle_v2_copy_ctor_failure:
  "handles s this = None \<Longrightarrow> Handle_v2_copy_ctor I this other s = (Inl e, s1) \<Longrightarrow>
     handles s1 = handles s \<and> heap s1 = heap s \<and> free_store s1 = free_store s"
  by (auto simp: Handle_v2_copy_ctor_def make_unique_def placement_new_def
      unique_ptr_reset_def unique_ptr_get_def delete_def
      split: if_splits sum.splits prod.splits option.splits storage.splits)

lemma local_handle_gone:
  "m tmp = None \<Longrightarrow> this \<noteq> tmp \<Longrightarrow> (m(this := z))(tmp := None) = m(this := z)"
  "m tmp = None \<Longrightarrow> m(tmp := None) = m"
  by (rule ext, simp)+

text \<open>
  Claim C3. Copy assignment is the copy construction of a local \<open>tmp\<close>, the
  move assignment of \<open>tmp\<close> to \<open>this\<close> and the destruction of \<open>tmp\<close>
  (the definitions of \<open>Handle_copy_assign\<close> and \<open>Handle_v2_copy_assign\<close>).
  Whenever the copy construction fails, the assignment fails with the same
  error, and no handle and no heap cell has changed. In version 3 with a body
  that does not fit, this is all that ever happens: the copy constructor that
  \<open>auto tmp = other;\<close> needs is ill-formed, so copy assignment is ill-formed
  too and no target ever receives the value of a source. Version 2 does what
  the claim says. With a source that owns \<open>b\<close>: when the free store is
  exhausted, \<open>bad_alloc\<close> is thrown and the memory is unchanged; when the
  body's copy constructor throws \<open>e\<close>, \<open>e\<close> is thrown and only the counters
  of allocations and deallocations have moved; on success the target points to
  a new cell holding the copy \<open>c\<close> of \<open>b\<close>, the body the target owned
  before has been deleted, and a different source still owns \<open>b\<close>. A null
  source makes the target null. Version 3 with the body in place does it too:
  the target holds what the body's move assignment made of the copy, which is
  \<open>b\<close> when the body's copy and move assignment preserve the value, and a
  different source still holds \<open>b\<close>; when the body's copy constructor throws,
  the memory is unchanged.
\<close>

theorem Handle_copy_assign_strong_guarantee:
  assumes "handles s tmp = None" and "this \<noteq> tmp" and "other \<noteq> tmp"
  shows "((Handle_copy_ctor I tmp other s = (Inl e, s1) \<longrightarrow>
            Handle_copy_assign I tmp this other s = (Inl e, s1)
            \<and> handles s1 = handles s \<and> heap s1 = heap s \<and> free_store s1 = free_store s)
        \<and> (Handle_v2_copy_ctor I tmp other s = (Inl e, s1) \<longrightarrow>
            Handle_v2_copy_assign I tmp this other s = (Inl e, s1)
            \<and> handles s1 = handles s \<and> heap s1 = heap s \<and> free_store s1 = free_store s))
     \<and> (\<not> fits_Body I \<longrightarrow> Handle_copy_assign I tmp this other s = (Inl ill_formed, s))
     \<and> (handles s other = Some (BodyPtr (Some a)) \<and> a < length (heap s) \<and> heap s ! a = Some b
          \<and> handles s this = Some (BodyPtr pt)
          \<and> (\<forall>q. pt = Some q \<longrightarrow> q < length (heap s) \<and> heap s ! q \<noteq> None) \<longrightarrow>
         (free_store s = 0 \<longrightarrow>
            Handle_v2_copy_assign I tmp this other s = (Inl bad_alloc, s))
       \<and> (0 < free_store s \<and> Body_copy_ctor I b = Inl e \<longrightarrow>
            Handle_v2_copy_assign I tmp this other s =
              (Inl e, s\<lparr>allocs := Suc (allocs s), frees := Suc (frees s)\<rparr>))
       \<and> (0 < free_store s \<and> Body_copy_ctor I b = Inr c \<longrightarrow>
           (let s' = s\<lparr>handles := (handles s)(this \<mapsto> BodyPtr (Some (length (heap s)))),
                       heap := (case pt of None \<Rightarrow> heap s @ [Some c]
                                | Some q \<Rightarrow> (heap s @ [Some c])[q := None]),
                       free_store := (case pt of None \<Rightarrow> free_store s - 1
                                      | Some q \<Rightarrow> free_store s),
                       allocs := Suc (allocs s),
                       frees := (case pt of None \<Rightarrow> frees s | Some q \<Rightarrow> Suc (frees s))\<rparr>
            in Handle_v2_copy_assign I tmp this other s = (Inr (), s')
             \<and> Handle_v2_body I this s' = Inr c
             \<and> (this \<noteq> other \<and> pt \<noteq> Some a \<longrightarrow>
                  handles s' other = handles s other \<and> deref (on_heap a) s' = Inr b))))
     \<and> (handles s other = Some (BodyPtr None) \<and> handles s this = Some (BodyPtr pt)
          \<and> (\<forall>q. pt = Some q \<longrightarrow> q < length (heap s) \<and> heap s ! q \<noteq> None) \<longrightarrow>
          (let s' = s\<lparr>handles := (handles s)(this \<mapsto> BodyPtr None),
                      heap := (case pt of None \<Rightarrow> heap s | Some q \<Rightarrow> (heap s)[q := None]),
                      free_store := (case pt of None \<Rightarrow> free_store s
                                     | Some q \<Rightarrow> Suc (free_store s)),
                      frees := (case pt of None \<Rightarrow> frees s | Some q \<Rightarrow> Suc (frees s))\<rparr>
           in Handle_v2_copy_assign I tmp this other s = (Inr (), s')
            \<and> handles s' other = Some (BodyPtr None)))
     \<and> (Handle_static_assert I \<and> fits_Body I \<and> handles s other = Some (InPlace b)
          \<and> handles s this = Some (InPlace t) \<longrightarrow>
         (Body_copy_ctor I b = Inl e \<longrightarrow> Handle_copy_assign I tmp this other s = (Inl e, s))
       \<and> (Body_copy_ctor I b = Inr c \<longrightarrow>
           (let s' = s\<lparr>handles := (handles s)(this \<mapsto> InPlace (fst (Body_move_assign I t c)))\<rparr>
            in Handle_copy_assign I tmp this other s = (Inr (), s')
             \<and> body I this s' = Inr (fst (Body_move_assign I t c))
             \<and> (this \<noteq> other \<longrightarrow> body I other s' = Inr b)
             \<and> (c = b \<and> fst (Body_move_assign I t b) = b \<longrightarrow>
                  body I this s' = Inr b \<and> body I other s' = Inr b))))"
  (is "?failure \<and> ?ill_formed \<and> ?indirect \<and> ?null \<and> ?inplace")
proof -
  have 1: ?failure
    using assms(1) Handle_copy_ctor_failure [of I tmp other s e s1]
      Handle_v2_copy_ctor_failure [of s tmp I other e s1]
    by (simp add: Handle_copy_assign_def Handle_v2_copy_assign_def)
  have 2: ?ill_formed
    by (simp add: Handle_copy_assign_def Handle_copy_ctor_def reinterpret_cast_BodyPtr_def)
  have 3: ?indirect
    using assms
    by (cases pt)
      (simp_all add: Handle_defs Handle_v2_defs local_handle_gone nth_append Let_def)
  have 4: ?null
    using assms
    by (cases pt) (simp_all add: Handle_defs Handle_v2_defs local_handle_gone Let_def)
  have 5: ?inplace
    using assms by (simp add: Handle_defs local_handle_gone Let_def)
  show ?thesis
    by (rule conjI [OF 1 conjI [OF 2 conjI [OF 3 conjI [OF 4 5]]]])
qed

theorem Handle_copy_assign_strong_guarantee_witness:
  "Handle_copy_assign LargeBuffer 5 1 0 mem_pair = (Inl ill_formed, mem_pair)
   \<and> Handle_v2_copy_assign LargeBuffer 5 1 0 mem_pair =
     (Inr (),
      \<lparr>handles = [0 \<mapsto> BodyPtr (Some 0), 1 \<mapsto> BodyPtr (Some 2)],
       heap = [Some 7, None, Some 7], free_store = 6, allocs = 3, frees = 1\<rparr>)
   \<and> Handle_v2_copy_assign LargeBuffer 5 1 0 (mem_pair\<lparr>free_store := 0\<rparr>) =
     (Inl bad_alloc, mem_pair\<lparr>free_store := 0\<rparr>)
   \<and> Handle_v2_copy_assign (LargeBuffer\<lparr>Body_copy_ctor := \<lambda>b. Inl Body_exception\<rparr>) 5 1 0
       mem_pair =
     (Inl Body_exception, mem_pair\<lparr>allocs := 3, frees := 1\<rparr>)
   \<and> Handle_copy_assign SmallCounter 5 1 0 mem_inplace_pair =
     (Inr (), mem_inplace_pair\<lparr>handles := [0 \<mapsto> InPlace 7, 1 \<mapsto> InPlace 7]\<rparr>)"
proof -
  have j: "Body_copy_ctor (LargeBuffer\<lparr>Body_copy_ctor := \<lambda>b. Inl Body_exception\<rparr>) 7 =
          Inl Body_exception"
    by (simp add: Handle_defs example_defs)
  have a: "handles mem_pair 5 = None" "handles (mem_pair\<lparr>free_store := 0\<rparr>) 5 = None"
    "handles mem_inplace_pair 5 = None" "(1::nat) \<noteq> 5" "(0::nat) \<noteq> 5"
    by (simp_all add: example_defs)
  have i: "\<not> fits_Body LargeBuffer \<and> Body_copy_ctor LargeBuffer 7 = Inr 7"
    by (simp add: Handle_defs example_defs)
  have p: "handles mem_pair 0 = Some (BodyPtr (Some 0)) \<and> 0 < length (heap mem_pair)
      \<and> heap mem_pair ! 0 = Some 7 \<and> handles mem_pair 1 = Some (BodyPtr (Some 1))
      \<and> (\<forall>q. Some (1::nat) = Some q \<longrightarrow>
            q < length (heap mem_pair) \<and> heap mem_pair ! q \<noteq> None)
      \<and> 0 < free_store mem_pair"
    by (simp add: example_defs)
  have q: "Handle_static_assert SmallCounter \<and> fits_Body SmallCounter
      \<and> handles mem_inplace_pair 0 = Some (InPlace 7)
      \<and> handles mem_inplace_pair 1 = Some (InPlace 3)
      \<and> Body_copy_ctor SmallCounter 7 = Inr 7"
    by (simp add: Handle_defs example_defs)
  show ?thesis
    using Handle_copy_assign_strong_guarantee
        [OF a(1) a(4) a(5), of LargeBuffer undefined undefined 0 7 "Some 1" 7 undefined]
      Handle_copy_assign_strong_guarantee
        [OF a(2) a(4) a(5), of LargeBuffer undefined undefined 0 7 "Some 1" 7 undefined]
      Handle_copy_assign_strong_guarantee
        [OF a(1) a(4) a(5),
          of "LargeBuffer\<lparr>Body_copy_ctor := \<lambda>b. Inl Body_exception\<rparr>" Body_exception
            undefined 0 7 "Some 1" undefined undefined]
      Handle_copy_assign_strong_guarantee
        [OF a(3) a(4) a(5), of SmallCounter undefined undefined 0 7 None 7 3]
      i j p q
    by (simp add: Let_def example_defs numeral_2_eq_2)
qed

subsection \<open>The choice of representation\<close>

text \<open>
  Claim C4. The body is stored in place if and only if \<open>sizeof(Body) <= Size\<close>
  and \<open>alignof(Body) <= alignof(std::aligned_storage_t<Size>)\<close>, and the
  owning pointer is measured by the same predicate. Every constructor that
  returns leaves in the new handle a body in place exactly when the body fits,
  and otherwise a pointer, which requires the pointer type to fit; the pointer
  returned by \<open>operator->\<close> points into the storage exactly when the body fits.
  So the representation is a function of the instantiation alone, whatever the
  memory. When neither the body nor the pointer type fits, the instantiation is
  rejected in the default, copy and move constructor and in move assignment.
  When the instantiation is accepted and the body's default constructor returns
  \<open>b\<close>, default construction yields \<open>b\<close> in place if the body fits, and
  otherwise, given a free cell, a pointer to a new cell.
\<close>

theorem Handle_representation_choice:
  "(fits_Body I \<longleftrightarrow>
      sizeof_Body I \<le> Size I \<and> alignof_Body I \<le> alignof_aligned_storage I (Size I))
   \<and> (fits_BodyPtr I \<longleftrightarrow>
      sizeof_BodyPtr I \<le> Size I \<and> alignof_BodyPtr I \<le> alignof_aligned_storage I (Size I))
   \<and> (Handle_ctor I this s = (Inr (), s') \<or> Handle_copy_ctor I this other s = (Inr (), s')
        \<or> Handle_move_ctor I this other s = (Inr (), s') \<longrightarrow>
        (case handles s' this of
           Some (InPlace x) \<Rightarrow> fits_Body I
         | Some (BodyPtr p) \<Rightarrow> \<not> fits_Body I \<and> fits_BodyPtr I
         | None \<Rightarrow> False))
   \<and> (operator_arrow I this s = Inr p \<longrightarrow> (p = in_storage this \<longleftrightarrow> fits_Body I))
   \<and> (\<not> fits_Body I \<and> \<not> fits_BodyPtr I \<longrightarrow>
        Handle_ctor I this s = (Inl ill_formed, s)
        \<and> Handle_copy_ctor I this other s = (Inl ill_formed, s)
        \<and> Handle_move_ctor I this other s = (Inl ill_formed, s)
        \<and> Handle_move_assign I this other s = (Inl ill_formed, s))
   \<and> (Handle_static_assert I \<and> Body_ctor I = Inr b \<longrightarrow>
        (fits_Body I \<longrightarrow> Handle_ctor I this s = (Inr (), placement_new this (InPlace b) s))
        \<and> (\<not> fits_Body I \<and> fits_BodyPtr I \<and> 0 < free_store s \<longrightarrow>
             fst (Handle_ctor I this s) = Inr ()
             \<and> handles (snd (Handle_ctor I this s)) this = Some (BodyPtr (Some (length (heap s))))))"
  (is "?A \<and> ?B \<and> ?C \<and> ?D \<and> ?E \<and> ?F")
proof -
  have 1: ?A by (simp add: fits_Body_def fits_def)
  have 2: ?B by (simp add: fits_BodyPtr_def fits_def)
  have 3: ?C
    by (auto simp: Handle_ctor_def Handle_copy_ctor_def Handle_move_ctor_def make_unique_def
        placement_new_def unique_ptr_release_def reinterpret_cast_BodyPtr_def
        split: if_splits sum.splits prod.splits)
  have 4: ?D
    by (auto simp: operator_arrow_def reinterpret_cast_BodyPtr_def
        split: if_splits sum.splits option.splits storage.splits)
  have 5: ?E
    by (simp add: Handle_ctor_def Handle_copy_ctor_def Handle_move_ctor_def Handle_move_assign_def)
  have 6: ?F
    by (simp add: Handle_ctor_def make_unique_def placement_new_def)
  show ?thesis
    by (rule conjI [OF 1 conjI [OF 2 conjI [OF 3 conjI [OF 4 conjI [OF 5 6]]]]])
qed


theorem Handle_representation_choice_witness:
  "fits_Body SmallCounter \<and> \<not> fits_Body LargeBuffer
   \<and> Handle_ctor SmallCounter 0 mem_empty = (Inr (), placement_new 0 (InPlace 0) mem_empty)
   \<and> handles (snd (Handle_ctor LargeBuffer 0 mem_empty)) 0 = Some (BodyPtr (Some 0))
   \<and> operator_arrow SmallCounter 0 mem_inplace = Inr (in_storage 0)
   \<and> Handle_ctor (LargeBuffer\<lparr>Size := 8, sizeof_BodyPtr := 16\<rparr>) 0 mem_empty =
       (Inl ill_formed, mem_empty)"
proof -
  have a: "Handle_static_assert SmallCounter \<and> Body_ctor SmallCounter = Inr 0
      \<and> sizeof_Body SmallCounter \<le> Size SmallCounter
      \<and> alignof_Body SmallCounter \<le> alignof_aligned_storage SmallCounter (Size SmallCounter)"
    by (simp add: Handle_defs example_defs)
  have b: "Handle_static_assert LargeBuffer \<and> Body_ctor LargeBuffer = Inr 0
      \<and> \<not> sizeof_Body LargeBuffer \<le> Size LargeBuffer \<and> fits_BodyPtr LargeBuffer
      \<and> 0 < free_store mem_empty \<and> length (heap mem_empty) = 0"
    by (simp add: Handle_defs example_defs)
  have c: "\<not> sizeof_Body (LargeBuffer\<lparr>Size := 8, sizeof_BodyPtr := 16\<rparr>)
         \<le> Size (LargeBuffer\<lparr>Size := 8, sizeof_BodyPtr := 16\<rparr>)
      \<and> \<not> sizeof_BodyPtr (LargeBuffer\<lparr>Size := 8, sizeof_BodyPtr := 16\<rparr>)
         \<le> Size (LargeBuffer\<lparr>Size := 8, sizeof_BodyPtr := 16\<rparr>)"
    by (simp add: example_defs)
  have d: "operator_arrow SmallCounter 0 mem_inplace = Inr (in_storage 0)"
    by (simp add: Handle_defs example_defs)
  show ?thesis
    using Handle_representation_choice
        [where I = SmallCounter and this = 0 and s = mem_empty and b = 0]
      Handle_representation_choice
        [where I = SmallCounter and this = 0 and s = mem_inplace and p = "in_storage 0"]
      Handle_representation_choice
        [where I = LargeBuffer and this = 0 and s = mem_empty and b = 0]
      Handle_representation_choice
        [where I = "LargeBuffer\<lparr>Size := 8, sizeof_BodyPtr := 16\<rparr>" and this = 0
           and s = mem_empty]
      a b c d
    by simp
qed

subsection \<open>Independence of a copy\<close>

text \<open>
  A handle that holds its body in place and dereferences to \<open>b\<close> holds \<open>b\<close>.
\<close>

lemma body_in_place:
  "Handle_static_assert I \<Longrightarrow> fits_Body I \<Longrightarrow> body I h s = Inr b \<Longrightarrow>
     handles s h = Some (InPlace b)"
  by (auto simp: body_def operator_arrow_def deref_def split: option.splits storage.splits)

text \<open>
  Claim C5. With the body in place: let \<open>h\<close> be a valid handle, dereferencing
  to \<open>b\<close>, and let the body's copy constructor return \<open>c\<close>. Then the copy
  construction of \<open>h2\<close> from \<open>h\<close> succeeds, \<open>h2\<close> dereferences to \<open>c\<close>,
  which is \<open>*h\<close> when the copy constructor of the body yields an equal value,
  and \<open>h\<close> still dereferences to \<open>b\<close>. A mutation \<open>f\<close> of the body
  through \<open>h\<close> succeeds, makes \<open>h\<close> dereference to \<open>f b\<close> and leaves
  \<open>*h2\<close> as it was; a mutation through \<open>h2\<close> succeeds, makes \<open>h2\<close>
  dereference to \<open>f c\<close> and leaves \<open>*h\<close> as it was. With a body that does
  not fit there is no copy to be independent of: the copy constructor is
  ill-formed, and so is \<open>operator->\<close>, through which a body would be read or
  mutated.
\<close>

theorem Handle_copy_is_deep:
  assumes "Handle_static_assert I" and "h2 \<noteq> h"
  shows "(fits_Body I \<and> body I h s = Inr b \<and> Body_copy_ctor I b = Inr c \<longrightarrow>
          (let s1 = snd (Handle_copy_ctor I h2 h s);
               s2 = snd (mutate I h f s1);
               s3 = snd (mutate I h2 f s1)
           in fst (Handle_copy_ctor I h2 h s) = Inr ()
            \<and> body I h2 s1 = Inr c \<and> body I h s1 = Inr b
            \<and> (c = b \<longrightarrow> body I h2 s1 = body I h s1)
            \<and> fst (mutate I h f s1) = Inr ()
            \<and> body I h s2 = Inr (f b) \<and> body I h2 s2 = Inr c
            \<and> fst (mutate I h2 f s1) = Inr ()
            \<and> body I h2 s3 = Inr (f c) \<and> body I h s3 = Inr b))
       \<and> (\<not> fits_Body I \<longrightarrow>
            Handle_copy_ctor I h2 h s = (Inl ill_formed, s)
          \<and> body I h s = Inl ill_formed
          \<and> mutate I h f s = (Inl ill_formed, s))"
  (is "(?valid \<longrightarrow> ?deep) \<and> ?indirect")
proof -
  have 1: "?valid \<longrightarrow> ?deep"
  proof (rule impI)
    assume v: ?valid
    then have fit: "fits_Body I" and bd: "body I h s = Inr b"
      and cp: "Body_copy_ctor I b = Inr c"
      by simp_all
    have hs: "handles s h = Some (InPlace b)"
      using assms(1) fit bd by (rule body_in_place)
    define s1 where "s1 = placement_new h2 (InPlace c) s"
    have c: "Handle_copy_ctor I h2 h s = (Inr (), s1)"
      using fit assms(1) bd cp by (simp add: Handle_copy_ctor_def s1_def)
    have h1: "handles s1 h = Some (InPlace b)" "handles s1 h2 = Some (InPlace c)"
      using hs assms(2) by (simp_all add: s1_def placement_new_def)
    have m: "mutate I h f s1 = (Inr (), placement_new h (InPlace (f b)) s1)"
      "mutate I h2 f s1 = (Inr (), placement_new h2 (InPlace (f c)) s1)"
      using fit assms(1) h1
      by (simp_all add: mutate_def operator_arrow_mut_def operator_arrow_def deref_def
          assign_through_def)
    have b: "body I h2 s1 = Inr c" "body I h s1 = Inr b"
      "body I h (placement_new h (InPlace (f b)) s1) = Inr (f b)"
      "body I h2 (placement_new h (InPlace (f b)) s1) = Inr c"
      "body I h2 (placement_new h2 (InPlace (f c)) s1) = Inr (f c)"
      "body I h (placement_new h2 (InPlace (f c)) s1) = Inr b"
      using fit assms(1,2) h1
      by (simp_all add: body_def operator_arrow_def deref_def placement_new_def)
    show ?deep
      by (simp add: c m b Let_def)
  qed
  have 2: ?indirect
    using assms(1) by (simp add: Handle_defs)
  show ?thesis
    by (rule conjI [OF 1 2])
qed

theorem Handle_copy_is_deep_witness:
  "body SmallCounter 0
     (snd (mutate SmallCounter 0 (\<lambda>x. x + 1)
        (snd (Handle_copy_ctor SmallCounter 1 0 mem_inplace)))) =
     Inr 8
   \<and> body SmallCounter 1
     (snd (mutate SmallCounter 0 (\<lambda>x. x + 1)
        (snd (Handle_copy_ctor SmallCounter 1 0 mem_inplace)))) =
     Inr 7
   \<and> body SmallCounter 0
     (snd (mutate SmallCounter 1 (\<lambda>x. x + 1)
        (snd (Handle_copy_ctor SmallCounter 1 0 mem_inplace)))) =
     Inr 7
   \<and> Handle_copy_ctor LargeBuffer 1 0 mem_owner = (Inl ill_formed, mem_owner)
   \<and> body LargeBuffer 0 mem_owner = Inl ill_formed"
proof -
  have a: "Handle_static_assert SmallCounter" "(1::nat) \<noteq> 0"
    by (simp_all add: Handle_defs example_defs)
  have b: "fits_Body SmallCounter \<and> body SmallCounter 0 mem_inplace = Inr 7
      \<and> Body_copy_ctor SmallCounter 7 = Inr 7"
    by (simp add: Handle_defs example_defs)
  have c: "Handle_static_assert LargeBuffer" "\<not> fits_Body LargeBuffer"
    by (simp_all add: Handle_defs example_defs)
  show ?thesis
    using Handle_copy_is_deep [OF a, of mem_inplace 7 7 "\<lambda>x. x + 1"]
      Handle_copy_is_deep [OF c(1) a(2), of mem_owner 7 7 "\<lambda>x. x + 1"] b c(2)
    by (simp add: Let_def)
qed

subsection \<open>Self-assignment\<close>

text \<open>
  Claim C6. Assigning a handle \<open>h\<close> to itself. Move assignment, indirect
  representation: the memory is unchanged, whether \<open>h\<close> owns a body or is null
  (the pointer is released from the source before the target is reset, so
  nothing is deleted). Move assignment, in place: \<open>h\<close> stays live and holds
  what the body's own self-move-assignment leaves. Copy assignment, in place:
  \<open>h\<close> holds what the body's move assignment makes of the copy, and the
  memory is unchanged when the body's copy and move assignment preserve the
  value. Copy assignment, indirect representation: it is ill-formed in version
  3, because the copy constructor it starts with is, so \<open>h = h\<close> cannot be
  written for a body that does not fit. Version 2 does what the claim says:
  when self-copy-assignment succeeds, \<open>h\<close> owns a new cell with the copy
  \<open>c\<close> of its body \<open>b\<close> and the old cell has been deleted, once; when the
  free store is exhausted it throws and the memory is unchanged; a null \<open>h\<close>
  stays null; and self-move-assignment leaves the memory unchanged.
\<close>

theorem Handle_self_assignment:
  assumes "Handle_static_assert I" and "handles s tmp = None" and "h \<noteq> tmp"
  shows "(\<not> fits_Body I \<and> fits_BodyPtr I \<and> handles s h = Some (BodyPtr p) \<longrightarrow>
           Handle_move_assign I h h s = (Inr (), s)
         \<and> Handle_copy_assign I tmp h h s = (Inl ill_formed, s))
       \<and> (handles s h = Some (BodyPtr (Some a)) \<and> a < length (heap s)
            \<and> heap s ! a = Some b \<longrightarrow>
           Handle_v2_move_assign I h h s = (Inr (), s)
         \<and> (free_store s = 0 \<longrightarrow> Handle_v2_copy_assign I tmp h h s = (Inl bad_alloc, s))
         \<and> (0 < free_store s \<and> Body_copy_ctor I b = Inr c \<longrightarrow>
             (let s' = s\<lparr>handles := (handles s)(h \<mapsto> BodyPtr (Some (length (heap s)))),
                         heap := (heap s @ [Some c])[a := None],
                         allocs := Suc (allocs s), frees := Suc (frees s)\<rparr>
              in Handle_v2_copy_assign I tmp h h s = (Inr (), s')
               \<and> Handle_v2_body I h s' = Inr c
               \<and> (c = b \<longrightarrow> Handle_v2_body I h s' = Handle_v2_body I h s))))
       \<and> (handles s h = Some (BodyPtr None) \<longrightarrow>
           Handle_v2_move_assign I h h s = (Inr (), s)
         \<and> Handle_v2_copy_assign I tmp h h s = (Inr (), s))
       \<and> (fits_Body I \<and> handles s h = Some (InPlace b) \<longrightarrow>
           Handle_move_assign I h h s =
             (Inr (), s\<lparr>handles := (handles s)(h \<mapsto> InPlace (Body_self_move_assign I b))\<rparr>)
         \<and> body I h (snd (Handle_move_assign I h h s)) = Inr (Body_self_move_assign I b)
         \<and> (Body_copy_ctor I b = Inl e \<longrightarrow> Handle_copy_assign I tmp h h s = (Inl e, s))
         \<and> (Body_copy_ctor I b = Inr c \<longrightarrow>
             (let s' = s\<lparr>handles := (handles s)(h \<mapsto> InPlace (fst (Body_move_assign I b c)))\<rparr>
              in Handle_copy_assign I tmp h h s = (Inr (), s')
               \<and> body I h s' = Inr (fst (Body_move_assign I b c))
               \<and> (c = b \<and> fst (Body_move_assign I b b) = b \<longrightarrow>
                    Handle_copy_assign I tmp h h s = (Inr (), s)))))"
  (is "?indirect \<and> ?valid \<and> ?null \<and> ?inplace")
proof -
  have same: "\<And>x. handles s h = Some x \<Longrightarrow> s\<lparr>handles := (handles s)(h \<mapsto> x)\<rparr> = s"
    by (simp add: map_upd_triv)
  have 1: ?indirect
    using assms same by (simp add: Handle_defs)
  have 2: ?valid
    using assms same
    by (simp add: Handle_defs Handle_v2_defs local_handle_gone nth_append Let_def)
  have 3: ?null
    using assms same by (simp add: Handle_defs Handle_v2_defs local_handle_gone)
  have 4: ?inplace
    using assms same by (simp add: Handle_defs local_handle_gone Let_def)
  show ?thesis
    by (rule conjI [OF 1 conjI [OF 2 conjI [OF 3 4]]])
qed

theorem Handle_self_assignment_witness:
  "Handle_move_assign LargeBuffer 0 0 mem_owner = (Inr (), mem_owner)
   \<and> Handle_copy_assign LargeBuffer 5 0 0 mem_owner = (Inl ill_formed, mem_owner)
   \<and> Handle_v2_copy_assign LargeBuffer 5 0 0 mem_owner =
       (Inr (),
        \<lparr>handles = [0 \<mapsto> BodyPtr (Some 1)], heap = [None, Some 7], free_store = 7,
         allocs = 2, frees = 1\<rparr>)
   \<and> Handle_move_assign LargeBuffer 0 0 mem_null = (Inr (), mem_null)
   \<and> Handle_copy_assign LargeBuffer 5 0 0 mem_null = (Inl ill_formed, mem_null)
   \<and> Handle_v2_copy_assign LargeBuffer 5 0 0 mem_null = (Inr (), mem_null)
   \<and> Handle_move_assign SmallCounter 0 0 mem_inplace = (Inr (), mem_inplace)
   \<and> Handle_copy_assign SmallCounter 5 0 0 mem_inplace = (Inr (), mem_inplace)"
proof -
  have a: "Handle_static_assert LargeBuffer" "handles mem_owner 5 = None" "(0::nat) \<noteq> 5"
    "handles mem_null 5 = None" "Handle_static_assert SmallCounter"
    "handles mem_inplace 5 = None"
    by (simp_all add: Handle_defs example_defs)
  have b: "\<not> fits_Body LargeBuffer \<and> fits_BodyPtr LargeBuffer
      \<and> handles mem_owner 0 = Some (BodyPtr (Some 0)) \<and> 0 < length (heap mem_owner)
      \<and> heap mem_owner ! 0 = Some 7 \<and> 0 < free_store mem_owner
      \<and> Body_copy_ctor LargeBuffer 7 = Inr 7 \<and> handles mem_null 0 = Some (BodyPtr None)"
    by (simp add: Handle_defs example_defs)
  have c: "fits_Body SmallCounter \<and> handles mem_inplace 0 = Some (InPlace 7)
      \<and> Body_copy_ctor SmallCounter 7 = Inr 7 \<and> Body_self_move_assign SmallCounter 7 = 7
      \<and> fst (Body_move_assign SmallCounter 7 7) = 7"
    by (simp add: Handle_defs example_defs)
  have d: "mem_owner\<lparr>handles :=
                       (handles mem_owner)(0 \<mapsto> BodyPtr (Some (length (heap mem_owner)))),
                     heap := (heap mem_owner @ [Some 7])[0 := None],
                     allocs := Suc (allocs mem_owner), frees := Suc (frees mem_owner)\<rparr> =
      \<lparr>handles = [0 \<mapsto> BodyPtr (Some 1)], heap = [None, Some 7], free_store = 7,
         allocs = 2, frees = 1\<rparr>"
    "mem_inplace\<lparr>handles := (handles mem_inplace)(0 \<mapsto> InPlace 7)\<rparr> = mem_inplace"
    by (simp_all add: example_defs)
  show ?thesis
    using Handle_self_assignment [OF a(1) a(2) a(3), of "Some 0" 0 7 7]
      Handle_self_assignment [OF a(1) a(4) a(3), of None 0 7 7]
      Handle_self_assignment [OF a(5) a(6) a(3), of None 0 7 7]
      b c d
    by (simp add: Let_def)
qed

subsection \<open>Dereference\<close>

text \<open>
  Claim C7. The indirect branch of \<open>operator->\<close> means to assert that the
  pointer is not null and to return it, but it reads the pointer through
  \<open>reinterpret_cast<std::unique_ptr<Body>*>(&storage_)\<close> in a const member
  function: for a body that does not fit, both overloads of \<open>operator->\<close> and
  \<open>::body\<close> are ill-formed, so no handle of the indirect representation can
  be dereferenced, null or not, and no assertion is ever reached. In place,
  \<open>operator->\<close> always returns the address of the storage and the body stored
  there is read, also after the handle has been moved from, when it reads what
  the body's move constructor left. Version 2 does what the claim says of the
  indirect representation: dereferencing a null handle fails the assertion in
  a debug build; with \<open>NDEBUG\<close> the operator returns the null pointer and
  reading through it is undefined; a handle that owns a cell gets a pointer to
  that cell, without a failed assertion, and reads the body if the cell is
  live.
\<close>

theorem Handle_dereference_precondition:
  assumes "Handle_static_assert I"
  shows "(\<not> fits_Body I \<longrightarrow>
           operator_arrow I h s = Inl ill_formed
         \<and> operator_arrow_mut I h s = Inl ill_formed
         \<and> body I h s = Inl ill_formed)
       \<and> (fits_Body I \<and> handles s h = Some (InPlace b) \<longrightarrow>
           operator_arrow I h s = Inr (in_storage h)
         \<and> operator_arrow_mut I h s = Inr (in_storage h)
         \<and> body I h s = Inr b
         \<and> (h2 \<noteq> h \<longrightarrow>
              operator_arrow I h (snd (Handle_move_ctor I h2 h s)) = Inr (in_storage h)
              \<and> body I h (snd (Handle_move_ctor I h2 h s)) = Inr (snd (Body_move_ctor I b))))
       \<and> (handles s h = Some (BodyPtr None) \<longrightarrow>
           (\<not> NDEBUG I \<longrightarrow>
              Handle_v2_operator_arrow I h s = Inl assertion_failed
              \<and> Handle_v2_body I h s = Inl assertion_failed)
         \<and> (NDEBUG I \<longrightarrow>
              Handle_v2_operator_arrow I h s = Inr nullptr
              \<and> Handle_v2_body I h s = Inl undefined_behaviour))
       \<and> (handles s h = Some (BodyPtr (Some a)) \<longrightarrow>
           Handle_v2_operator_arrow I h s = Inr (on_heap a)
         \<and> (a < length (heap s) \<and> heap s ! a = Some b \<longrightarrow> Handle_v2_body I h s = Inr b))"
  (is "?indirect \<and> ?inplace \<and> ?v2null \<and> ?v2valid")
proof -
  have 1: ?indirect
    using assms by (simp add: body_def operator_arrow_mut_def operator_arrow_def
        reinterpret_cast_BodyPtr_def)
  have 3: ?inplace
    using assms by (simp add: body_def operator_arrow_mut_def operator_arrow_def deref_def
        Handle_move_ctor_def placement_new_def)
  have 4: ?v2null
    by (simp add: Handle_v2_body_def Handle_v2_operator_arrow_def unique_ptr_get_def deref_def)
  have 5: ?v2valid
    by (simp add: Handle_v2_body_def Handle_v2_operator_arrow_def unique_ptr_get_def deref_def)
  show ?thesis
    by (rule conjI [OF 1 conjI [OF 3 conjI [OF 4 5]]])
qed

theorem Handle_dereference_precondition_witness:
  "operator_arrow LargeBuffer 0 mem_null = Inl ill_formed
   \<and> operator_arrow (LargeBuffer\<lparr>NDEBUG := True\<rparr>) 0 mem_null = Inl ill_formed
   \<and> operator_arrow LargeBuffer 0 mem_owner = Inl ill_formed
   \<and> body LargeBuffer 0 mem_owner = Inl ill_formed
   \<and> body SmallCounter 0 (snd (Handle_move_ctor SmallCounter 1 0 mem_inplace)) = Inr 7
   \<and> Handle_v2_operator_arrow LargeBuffer 0 mem_null = Inl assertion_failed
   \<and> Handle_v2_operator_arrow (LargeBuffer\<lparr>NDEBUG := True\<rparr>) 0 mem_null = Inr nullptr
   \<and> Handle_v2_body (LargeBuffer\<lparr>NDEBUG := True\<rparr>) 0 mem_null = Inl undefined_behaviour
   \<and> Handle_v2_operator_arrow LargeBuffer 0 mem_owner = Inr (on_heap 0)
   \<and> Handle_v2_body LargeBuffer 0 mem_owner = Inr 7"
proof -
  have a: "Handle_static_assert LargeBuffer"
    "Handle_static_assert (LargeBuffer\<lparr>NDEBUG := True\<rparr>)"
    "Handle_static_assert SmallCounter"
    by (simp_all add: Handle_defs example_defs)
  have b: "\<not> fits_Body LargeBuffer \<and> \<not> fits_Body (LargeBuffer\<lparr>NDEBUG := True\<rparr>)
      \<and> fits_Body SmallCounter \<and> \<not> NDEBUG LargeBuffer
      \<and> NDEBUG (LargeBuffer\<lparr>NDEBUG := True\<rparr>)
      \<and> handles mem_null 0 = Some (BodyPtr None)
      \<and> handles mem_owner 0 = Some (BodyPtr (Some 0)) \<and> 0 < length (heap mem_owner)
      \<and> heap mem_owner ! 0 = Some 7 \<and> handles mem_inplace 0 = Some (InPlace 7)
      \<and> (1::nat) \<noteq> 0 \<and> snd (Body_move_ctor SmallCounter 7) = 7"
    by (simp add: Handle_defs example_defs)
  show ?thesis
    using Handle_dereference_precondition [OF a(1), of 0 mem_null 7 1 0]
      Handle_dereference_precondition [OF a(2), of 0 mem_null 7 1 0]
      Handle_dereference_precondition [OF a(1), of 0 mem_owner 7 1 0]
      Handle_dereference_precondition [OF a(3), of 0 mem_inplace 7 1 0]
      b
    by simp
qed

subsection \<open>Allocations and deallocations\<close>

text \<open>
  With the body in place no special member function touches the allocator,
  whatever its outcome.
\<close>

lemma in_place_no_allocation:
  assumes "fits_Body I"
  shows "allocator_untouched s (snd (Handle_ctor I this s))"
    and "allocator_untouched s (snd (Handle_copy_ctor I this other s))"
    and "allocator_untouched s (snd (Handle_move_ctor I this other s))"
    and "allocator_untouched s (snd (Handle_move_assign I this other s))"
    and "allocator_untouched s (snd (Handle_dtor I this s))"
  using assms
  by (simp_all add: allocator_untouched_def Handle_ctor_def Handle_copy_ctor_def
      Handle_move_ctor_def Handle_move_assign_def Handle_dtor_def placement_new_def
      split: sum.splits)

lemma in_place_copy_assign_no_allocation:
  assumes "fits_Body I"
  shows "allocator_untouched s (snd (Handle_copy_assign I tmp this other s))"
proof -
  have t: "\<And>a b c. allocator_untouched a b \<Longrightarrow> allocator_untouched b c \<Longrightarrow>
      allocator_untouched a c"
    by (simp add: allocator_untouched_def)
  show ?thesis
    using in_place_no_allocation(2) [OF assms, of s tmp other]
      in_place_no_allocation(4) [OF assms, of "snd (Handle_copy_ctor I tmp other s)" this tmp]
      in_place_no_allocation(5) [OF assms,
        of "snd (Handle_move_assign I this tmp (snd (Handle_copy_ctor I tmp other s)))" tmp]
    by (auto simp: Handle_copy_assign_def split: prod.splits sum.splits intro: t)
qed

text \<open>
  Claim C8. In-place instantiations: default construction, copy construction,
  move construction, both assignments and destruction leave the heap and the
  counters of \<open>operator new\<close> and \<open>operator delete\<close> as they were. Indirect
  instantiations: a default construction that succeeds makes exactly one
  allocation, of the cell the handle then owns, and no deallocation, and
  destroying that handle makes the one matching deallocation; when the free
  store is exhausted nothing is allocated, and when the body's constructor
  throws the cell is given back. Move construction neither allocates nor
  deallocates. Destroying a null (moved-from) handle deallocates nothing;
  destroying a handle that owns a cell deallocates that cell, once; and move
  assignment over a handle that owns a cell deallocates that cell, once. But a
  copy never allocates the one cell the claim counts, and copy assignment
  never replaces a value: the copy constructor and copy assignment are
  ill-formed for a body that does not fit, and leave the memory as it was.
\<close>

theorem Handle_allocation_count:
  assumes "Handle_static_assert I"
  shows "(fits_Body I \<longrightarrow>
            allocator_untouched s (snd (Handle_ctor I this s))
          \<and> allocator_untouched s (snd (Handle_copy_ctor I this other s))
          \<and> allocator_untouched s (snd (Handle_move_ctor I this other s))
          \<and> allocator_untouched s (snd (Handle_move_assign I this other s))
          \<and> allocator_untouched s (snd (Handle_copy_assign I tmp this other s))
          \<and> allocator_untouched s (snd (Handle_dtor I this s)))
       \<and> (\<not> fits_Body I \<and> fits_BodyPtr I \<longrightarrow>
            (free_store s = 0 \<longrightarrow> Handle_ctor I this s = (Inl bad_alloc, s))
          \<and> (0 < free_store s \<and> Body_ctor I = Inl e \<longrightarrow>
                Handle_ctor I this s =
                  (Inl e, s\<lparr>allocs := Suc (allocs s), frees := Suc (frees s)\<rparr>))
          \<and> (0 < free_store s \<and> Body_ctor I = Inr v \<longrightarrow>
                Handle_ctor I this s =
                  (Inr (),
                   s\<lparr>handles := (handles s)(this \<mapsto> BodyPtr (Some (length (heap s)))),
                     heap := heap s @ [Some v], free_store := free_store s - 1,
                     allocs := Suc (allocs s)\<rparr>)
              \<and> Handle_dtor I this (snd (Handle_ctor I this s)) =
                  (Inr (),
                   s\<lparr>handles := (handles s)(this := None),
                     heap := heap s @ [None], allocs := Suc (allocs s),
                     frees := Suc (frees s)\<rparr>))
          \<and> Handle_copy_ctor I this other s = (Inl ill_formed, s)
          \<and> Handle_copy_assign I tmp this other s = (Inl ill_formed, s)
          \<and> (handles s other = Some (BodyPtr p) \<longrightarrow>
                fst (Handle_move_ctor I this other s) = Inr ()
              \<and> allocator_untouched s (snd (Handle_move_ctor I this other s)))
          \<and> (handles s this = Some (BodyPtr None) \<longrightarrow>
                Handle_dtor I this s = (Inr (), s\<lparr>handles := (handles s)(this := None)\<rparr>))
          \<and> (handles s this = Some (BodyPtr (Some a)) \<and> a < length (heap s)
                \<and> heap s ! a = Some b \<longrightarrow>
                Handle_dtor I this s =
                  (Inr (),
                   s\<lparr>handles := (handles s)(this := None), heap := (heap s)[a := None],
                     free_store := Suc (free_store s), frees := Suc (frees s)\<rparr>)
              \<and> (this \<noteq> other \<and> handles s other = Some (BodyPtr p) \<longrightarrow>
                  Handle_move_assign I this other s =
                    (Inr (),
                     s\<lparr>handles := (handles s)(other \<mapsto> BodyPtr None, this \<mapsto> BodyPtr p),
                       heap := (heap s)[a := None],
                       free_store := Suc (free_store s), frees := Suc (frees s)\<rparr>))))"
  (is "?inplace \<and> ?indirect")
proof -
  have 1: ?inplace
    by (simp add: in_place_no_allocation in_place_copy_assign_no_allocation)
  have 2: ?indirect
    using assms
    by (simp add: Handle_defs allocator_untouched_def)
  show ?thesis
    by (rule conjI [OF 1 2])
qed

theorem Handle_allocation_count_witness:
  "allocs (snd (Handle_ctor SmallCounter 0 mem_empty)) = 0
   \<and> allocs (snd (Handle_copy_ctor SmallCounter 1 0 mem_inplace)) = 0
   \<and> Handle_ctor LargeBuffer 0 mem_empty =
       (Inr (),
        \<lparr>handles = [0 \<mapsto> BodyPtr (Some 0)], heap = [Some 0], free_store = 7, allocs = 1,
         frees = 0\<rparr>)
   \<and> Handle_copy_ctor LargeBuffer 1 0 mem_owner = (Inl ill_formed, mem_owner)
   \<and> Handle_copy_assign LargeBuffer 5 1 0 mem_pair = (Inl ill_formed, mem_pair)
   \<and> allocs (snd (Handle_move_ctor LargeBuffer 1 0 mem_owner)) = 1
   \<and> frees (snd (Handle_move_ctor LargeBuffer 1 0 mem_owner)) = 0
   \<and> Handle_dtor LargeBuffer 0 mem_null = (Inr (), mem_empty)
   \<and> Handle_dtor LargeBuffer 0 mem_owner =
       (Inr (),
        \<lparr>handles = Map.empty, heap = [None], free_store = 8, allocs = 1, frees = 1\<rparr>)"
proof -
  have a: "Handle_static_assert SmallCounter" "Handle_static_assert LargeBuffer"
    by (simp_all add: Handle_defs example_defs)
  have b: "fits_Body SmallCounter \<and> \<not> fits_Body LargeBuffer \<and> fits_BodyPtr LargeBuffer
      \<and> 0 < free_store mem_empty \<and> Body_ctor LargeBuffer = Inr 0
      \<and> handles mem_owner 0 = Some (BodyPtr (Some 0)) \<and> 0 < length (heap mem_owner)
      \<and> heap mem_owner ! 0 = Some 7 \<and> handles mem_null 0 = Some (BodyPtr None)"
    by (simp add: Handle_defs example_defs)
  show ?thesis
    using Handle_allocation_count
        [OF a(1), where s = mem_empty and this = 0]
      Handle_allocation_count
        [OF a(1), where s = mem_inplace and this = 1 and other = 0]
      Handle_allocation_count
        [OF a(2), where s = mem_empty and this = 0 and v = 0]
      Handle_allocation_count
        [OF a(2), where s = mem_owner and this = 1 and other = 0 and p = "Some 0"]
      Handle_allocation_count
        [OF a(2), where s = mem_pair and this = 1 and other = 0 and tmp = 5]
      Handle_allocation_count
        [OF a(2), where s = mem_null and this = 0]
      Handle_allocation_count
        [OF a(2), where s = mem_owner and this = 0 and a = 0 and b = 7]
      b
    by (simp add: allocator_untouched_def example_defs)
qed

subsection \<open>The default conditional survival probability\<close>

text \<open>
  Claim C9, as stated, says that the default implementation throws
  \<open>computation_error\<close> if and only if \<open>survival_prob(t) == 0\<close>. It fails for
  the system above at \<open>T = 3\<close>, \<open>t = 1\<close>: the precondition \<open>0 <= t <= T\<close>
  holds, \<open>survival_prob(1)\<close> returns one half, which is not 0, and the call
  \<open>survival_prob(3)\<close> throws \<open>computation_error\<close>, which leaves the default
  implementation.
\<close>

theorem conditional_survival_prob_impl_throws_counterexample:
  "d_le real_double (d_zero real_double) 1 \<and> d_le real_double 1 3
   \<and> survival_prob real_double False step_system 1 = Inr (1 / 2)
   \<and> \<not> d_eq real_double (1 / 2) (d_zero real_double)
   \<and> Survival_conditional_survival_prob_impl real_double False step_system 3 1 =
       Inl computation_error"
  by (simp add: Survival_defs Survival_example_defs)

text \<open>
  Claim C9, amended. Under the precondition \<open>0 <= t <= T\<close> (or with \<open>NDEBUG\<close>):
  if \<open>survival_prob(t)\<close> returns a value equal to 0, the default implementation
  throws \<open>computation_error\<close>; if it returns a value that is not 0 and
  \<open>survival_prob(T)\<close> returns, the result is exactly the quotient of the two;
  and an exception thrown by \<open>survival_prob(t)\<close>, or by \<open>survival_prob(T)\<close>
  when \<open>survival_prob(t)\<close> is not 0, leaves the default implementation
  unchanged. In a debug build a violated precondition fails an assertion, in
  the default implementation and in the public \<open>conditional_survival_prob\<close>.
  For a class that opts into the default implementation, the public function
  returns what the default implementation returns.
\<close>

theorem conditional_survival_prob_impl_default:
  "(ndebug \<or> (d_le D (d_zero D) t \<and> d_le D t T) \<longrightarrow>
      (survival_prob D ndebug this t = Inr S_t \<and> d_eq D S_t (d_zero D) \<longrightarrow>
         Survival_conditional_survival_prob_impl D ndebug this T t = Inl computation_error)
    \<and> (survival_prob D ndebug this t = Inr S_t \<and> \<not> d_eq D S_t (d_zero D)
         \<and> survival_prob D ndebug this T = Inr S_T \<longrightarrow>
         Survival_conditional_survival_prob_impl D ndebug this T t = Inr (d_div D S_T S_t))
    \<and> (survival_prob D ndebug this t = Inl e \<longrightarrow>
         Survival_conditional_survival_prob_impl D ndebug this T t = Inl e)
    \<and> (survival_prob D ndebug this t = Inr S_t \<and> \<not> d_eq D S_t (d_zero D)
         \<and> survival_prob D ndebug this T = Inl e \<longrightarrow>
         Survival_conditional_survival_prob_impl D ndebug this T t = Inl e))
   \<and> (\<not> ndebug \<and> \<not> (d_le D (d_zero D) t \<and> d_le D t T) \<longrightarrow>
        Survival_conditional_survival_prob_impl D ndebug this T t = Inl assertion_failed
      \<and> conditional_survival_prob D ndebug this T t = Inl assertion_failed)
   \<and> (conditional_survival_prob_impl this =
        Survival_conditional_survival_prob_impl D ndebug this \<longrightarrow>
        conditional_survival_prob D ndebug this T t =
          Survival_conditional_survival_prob_impl D ndebug this T t)"
  (is "?returns \<and> ?checked \<and> ?opted")
proof -
  have 1: ?returns
    by (simp add: Survival_conditional_survival_prob_impl_def)
  have 2: ?checked
    by (simp add: Survival_conditional_survival_prob_impl_def conditional_survival_prob_def)
  have 3: ?opted
    by (cases ndebug)
      (simp_all add: Survival_conditional_survival_prob_impl_def conditional_survival_prob_def)
  show ?thesis
    by (rule conjI [OF 1 conjI [OF 2 3]])
qed

theorem conditional_survival_prob_impl_default_witness:
  "Survival_conditional_survival_prob_impl real_double False step_system (3 / 2) (1 / 2) =
     Inr (1 / 2)
   \<and> Survival_conditional_survival_prob_impl real_double False step_system (5 / 2) 2 =
     Inl computation_error
   \<and> Survival_conditional_survival_prob_impl real_double False step_system 3 1 =
     Inl computation_error
   \<and> Survival_conditional_survival_prob_impl real_double False step_system 4 3 =
     Inl computation_error
   \<and> Survival_conditional_survival_prob_impl real_double False step_system 1 2 =
     Inl assertion_failed
   \<and> conditional_survival_prob real_double False step_system (3 / 2) (1 / 2) = Inr (1 / 2)"
proof -
  have a: "d_le real_double (d_zero real_double) (1 / 2) \<and> d_le real_double (1 / 2) (3 / 2)
      \<and> survival_prob real_double False step_system (1 / 2) = Inr 1
      \<and> \<not> d_eq real_double 1 (d_zero real_double)
      \<and> survival_prob real_double False step_system (3 / 2) = Inr (1 / 2)
      \<and> d_div real_double (1 / 2) 1 = 1 / 2"
    by (simp add: Survival_defs Survival_example_defs)
  have b: "d_le real_double (d_zero real_double) 2 \<and> d_le real_double 2 (5 / 2)
      \<and> survival_prob real_double False step_system 2 = Inr 0
      \<and> d_eq real_double 0 (d_zero real_double)"
    by (simp add: Survival_defs Survival_example_defs)
  have c: "d_le real_double (d_zero real_double) 1 \<and> d_le real_double 1 3
      \<and> survival_prob real_double False step_system 1 = Inr (1 / 2)
      \<and> \<not> d_eq real_double (1 / 2) (d_zero real_double)
      \<and> survival_prob real_double False step_system 3 = Inl computation_error"
    by (simp add: Survival_defs Survival_example_defs)
  have d: "d_le real_double (d_zero real_double) 3 \<and> d_le real_double 3 4
      \<and> survival_prob real_double False step_system 3 = Inl computation_error"
    by (simp add: Survival_defs Survival_example_defs)
  have e: "\<not> (d_le real_double (d_zero real_double) 2 \<and> d_le real_double 2 1)"
    by (simp add: Survival_example_defs)
  have f: "conditional_survival_prob_impl step_system =
      Survival_conditional_survival_prob_impl real_double False step_system"
    by (intro ext) (simp add: Survival_defs step_system_def cong: sum.case_cong if_cong)
  show ?thesis
    using conditional_survival_prob_impl_default
        [where D = real_double and ndebug = False and this = step_system and T = "3 / 2"
           and t = "1 / 2" and S_t = 1 and S_T = "1 / 2"]
      conditional_survival_prob_impl_default
        [where D = real_double and ndebug = False and this = step_system and T = "5 / 2"
           and t = 2 and S_t = 0]
      conditional_survival_prob_impl_default
        [where D = real_double and ndebug = False and this = step_system and T = 3
           and t = 1 and S_t = "1 / 2" and e = computation_error]
      conditional_survival_prob_impl_default
        [where D = real_double and ndebug = False and this = step_system and T = 4
           and t = 3 and e = computation_error]
      conditional_survival_prob_impl_default
        [where D = real_double and ndebug = False and this = step_system and T = 1 and t = 2]
      a b c d e f
    by simp
qed

subsection \<open>The default printable value\<close>

text \<open>
  Claim C10. \<open>getDefault()\<close> is \<open>Default.clone()\<close>, whatever the outcome;
  \<open>Default.print()\<close> changes nothing, so it writes nothing to \<open>stdout\<close>;
  \<open>getDefault()\<close> never returns the null pointer and writes nothing to
  \<open>stdout\<close>. Whenever a cell is left to allocate, it returns a pointer to a
  cell that did not exist before and that nothing else therefore owns, holding
  a \<open>NullPrintableValue\<close>, and \<open>print()\<close> through the returned pointer
  succeeds and changes nothing.
\<close>

theorem getDefault_null_value:
  "getDefault w = clone Default w
   \<and> print print_cp Default w = w
   \<and> fst (getDefault w) \<noteq> Inr None
   \<and> stdout (snd (getDefault w)) = stdout w
   \<and> (0 < cells_left w \<longrightarrow>
        (let p = Some (length (objects w));
             w1 = w\<lparr>objects := objects w @ [Some NullPrintableValue],
                    cells_left := cells_left w - 1\<rparr>
         in getDefault w = (Inr p, w1)
          \<and> objects w1 ! length (objects w) = Some NullPrintableValue
          \<and> print_through print_cp p w1 = (Inr (), w1)))"
  (is "?clone \<and> ?silent \<and> ?nonnull \<and> ?quiet \<and> ?fresh")
proof -
  have 1: ?clone
    by (simp add: getDefault_def)
  have 2: ?silent
    by (simp add: print_def print_impl_def Default_def)
  have r: "getDefault w = make_unique_printable NullPrintableValue w"
    by (simp add: getDefault_def clone_def clone_impl_def Default_def)
  have 3: ?nonnull
    by (simp add: r make_unique_printable_def)
  have 4: ?quiet
    by (simp add: r make_unique_printable_def)
  have 5: ?fresh
    by (simp add: r make_unique_printable_def print_through_def print_def print_impl_def
        Let_def)
  show ?thesis
    by (rule conjI [OF 1 conjI [OF 2 conjI [OF 3 conjI [OF 4 5]]]])
qed

theorem getDefault_null_value_witness:
  "getDefault some_process =
     (Inr (Some 1),
      \<lparr>stdout = ''abc'', objects = [Some (PrintableValueAdapter 5), Some NullPrintableValue],
       cells_left = 2\<rparr>)
   \<and> print_through (\<lambda>n. ''x'') (Some 1) (snd (getDefault some_process)) =
       (Inr (), snd (getDefault some_process))"
proof -
  have a: "0 < cells_left some_process"
    by (simp add: some_process_def)
  note r = getDefault_null_value [of some_process "\<lambda>n. ''x''"]
  show ?thesis
    using r [THEN conjunct2, THEN conjunct2, THEN conjunct2, THEN conjunct2, THEN mp, OF a]
    by (simp add: some_process_def Let_def)
qed

end
